theory Spec2Isabelle
  imports Main "HOL-Library.Word"
begin

section \<open>Data model (package domain)\<close>

text \<open>
  A \<open>uuid.UUID\<close> is represented by its canonical textual form, the string that
  \<open>id.String()\<close> returns; that rendering is injective, so equality of identifiers is
  equality of these strings. \<open>uuid_Nil\<close> is the zero value of the type.
\<close>

datatype uuid = UUID string

fun uuid_String :: "uuid \<Rightarrow> string" where
  "uuid_String (UUID s) = s"

definition uuid_Nil :: uuid where
  "uuid_Nil = UUID ''00000000-0000-0000-0000-000000000000''"

text \<open>
  A \<open>float64\<close> is carried as its IEEE-754 bit pattern. The repository never computes
  with prices: it stores them, passes them to the database and tests the optional
  price bounds of a filter for presence.
\<close>

type_synonym float64 = "64 word"

text \<open>
  \<open>Category\<close> as a row of table \<open>categories\<close>. The \<open>Parent\<close> and \<open>Children\<close>
  associations are only filled by the category lookups, whose callers here test
  nothing but the error, and are left out; so are the \<open>CreatedAt\<close>/\<open>UpdatedAt\<close>
  stamps of both structs, which the ORM writes from the wall clock.
\<close>

record category =
  cat_ID :: uuid
  cat_Name :: string
  cat_Description :: string
  cat_ParentID :: "uuid option"
  cat_IsActive :: bool

record product =
  ID :: uuid
  Name :: string
  Description :: string
  Price :: float64
  CategoryID :: uuid
  Category :: "category option"
  Stock :: int
  ImageURL :: string
  SKU :: string
  IsActive :: bool

record CreateProductRequest =
  cr_Name :: string
  cr_Description :: string
  cr_Price :: float64
  cr_CategoryID :: uuid
  cr_Stock :: int
  cr_ImageURL :: string
  cr_SKU :: string

record UpdateProductRequest =
  up_Name :: "string option"
  up_Description :: "string option"
  up_Price :: "float64 option"
  up_CategoryID :: "uuid option"
  up_Stock :: "int option"
  up_ImageURL :: "string option"
  up_SKU :: "string option"
  up_IsActive :: "bool option"

text \<open>
  \<open>ProductFilters\<close>: a pointer field is an option (\<open>nil\<close> is \<open>None\<close>), \<open>Limit\<close> and
  \<open>Offset\<close> are Go \<open>int\<close>s.
\<close>

record ProductFilters =
  flt_CategoryID :: "uuid option"
  MinPrice :: "float64 option"
  MaxPrice :: "float64 option"
  Search :: string
  flt_IsActive :: "bool option"
  InStock :: "bool option"
  Limit :: int
  Offset :: int
  SortBy :: string
  SortOrder :: string

record ProductList =
  Products :: "product list"
  Total :: int
  pl_Limit :: int
  pl_Offset :: int
  HasMore :: bool

section \<open>Formatting verbs of \<open>fmt.Sprintf\<close>\<close>

text \<open>\<open>%d\<close> prints an integer in decimal, \<open>%t\<close> prints a boolean as a word.\<close>

fun nat_decimal :: "nat \<Rightarrow> string" where
  "nat_decimal n =
     (if n < 10 then [''0123456789'' ! n]
      else nat_decimal (n div 10) @ [''0123456789'' ! (n mod 10)])"

declare nat_decimal.simps [simp del]

definition fmt_d :: "int \<Rightarrow> string" where
  "fmt_d i = (if i < 0 then CHR ''-'' # nat_decimal (nat (- i)) else nat_decimal (nat i))"

definition fmt_t :: "bool \<Rightarrow> string" where
  "fmt_t b = (if b then ''true'' else ''false'')"

section \<open>Cache keys (repository, \<open>buildCacheKey\<close>)\<close>

text \<open>
  \<open>buildCacheKey\<close> follows the source statement by statement: the early return of
  the empty string for a filter set that is not simple, then the key grown by
  successive \<open>key += ...\<close>.
\<close>

definition buildCacheKey :: "ProductFilters \<Rightarrow> string" where
  "buildCacheKey filters =
     (if Search filters \<noteq> [] \<or> MinPrice filters \<noteq> None \<or> MaxPrice filters \<noteq> None then []
      else
        let key0 = ''products:list'';
            key1 = (case flt_CategoryID filters of
                      None \<Rightarrow> key0
                    | Some c \<Rightarrow> key0 @ '':cat_'' @ uuid_String c);
            key2 = (case flt_IsActive filters of
                      None \<Rightarrow> key1
                    | Some b \<Rightarrow> key1 @ '':active_'' @ fmt_t b);
            key3 = (case InStock filters of
                      None \<Rightarrow> key2
                    | Some b \<Rightarrow> key2 @ '':stock_'' @ fmt_t b);
            key4 = key3 @ '':limit_'' @ fmt_d (Limit filters)
                        @ '':offset_'' @ fmt_d (Offset filters);
            key5 = key4 @ '':sort_'' @ SortBy filters @ ''_'' @ SortOrder filters
        in key5)"

text \<open>
  The key format as the specification words it: no key for a filter set with a search
  term or a price bound, otherwise
  \<open>products:list[:cat_<uuid>][:active_<bool>][:stock_<bool>]:limit_<n>:offset_<n>:sort_<field>_<dir>\<close>,
  a bracketed part being present when the filter value is set.
\<close>

definition bracketed :: "string \<Rightarrow> ('a \<Rightarrow> string) \<Rightarrow> 'a option \<Rightarrow> string" where
  "bracketed tag render v = (case v of None \<Rightarrow> [] | Some x \<Rightarrow> tag @ render x)"

definition KeyForFilterSet :: "ProductFilters \<Rightarrow> string option" where
  "KeyForFilterSet filters =
     (if Search filters \<noteq> [] \<or> MinPrice filters \<noteq> None \<or> MaxPrice filters \<noteq> None then None
      else Some (''products:list''
                 @ bracketed '':cat_'' uuid_String (flt_CategoryID filters)
                 @ bracketed '':active_'' fmt_t (flt_IsActive filters)
                 @ bracketed '':stock_'' fmt_t (InStock filters)
                 @ '':limit_'' @ fmt_d (Limit filters)
                 @ '':offset_'' @ fmt_d (Offset filters)
                 @ '':sort_'' @ SortBy filters @ ''_'' @ SortOrder filters))"

definition same_filter_values :: "ProductFilters \<Rightarrow> ProductFilters \<Rightarrow> bool" where
  "same_filter_values f g \<longleftrightarrow>
     flt_CategoryID f = flt_CategoryID g \<and> MinPrice f = MinPrice g \<and>
     MaxPrice f = MaxPrice g \<and> Search f = Search g \<and>
     flt_IsActive f = flt_IsActive g \<and> InStock f = InStock g \<and>
     Limit f = Limit g \<and> Offset f = Offset g \<and>
     SortBy f = SortBy g \<and> SortOrder f = SortOrder g"

definition filters_demo :: ProductFilters where
  "filters_demo =
     \<lparr>flt_CategoryID = Some (UUID ''7c9e6679-7425-40de-944b-e07fc1f90ae7''),
      MinPrice = None, MaxPrice = None, Search = [],
      flt_IsActive = Some True, InStock = None,
      Limit = 20, Offset = 40, SortBy = ''price'', SortOrder = ''asc''\<rparr>"

section \<open>Errors\<close>

text \<open>
  \<open>db_error\<close> is what the ORM reports: \<open>gorm.ErrRecordNotFound\<close> or any other
  driver error. \<open>cache_error\<close> is what the cache client reports: \<open>redis.Nil\<close> for an
  absent key or any other failure.
\<close>

datatype db_error = ErrRecordNotFound | DbFailure string

datatype cache_error = redis_Nil | CacheFailure

text \<open>
  Package \<open>errors\<close> of the repository: the sentinel error types, \<open>AppError\<close> with its
  type, message and cause, and the constructors. Beside \<open>AppError\<close> an \<open>error\<close> value
  is one of the library errors the program meets (of the ORM, of the cache client, of
  the validator) or \<open>fmt.Errorf("<msg>: %w", err)\<close>, which wraps \<open>err\<close>.
\<close>

datatype err_type =
    ErrNotFound
  | ErrValidation
  | ErrConflict
  | ErrInternal
  | ErrUnauthorized
  | ErrForbidden

datatype error =
    GormError db_error
  | RedisError cache_error
  | ValidatorError string
  | Errorf string error
  | AppError err_type string "error option"

definition NewNotFoundError :: "string \<Rightarrow> error option \<Rightarrow> error" where
  "NewNotFoundError message cause = AppError ErrNotFound message cause"

definition NewValidationError :: "string \<Rightarrow> error option \<Rightarrow> error" where
  "NewValidationError message cause = AppError ErrValidation message cause"

definition NewConflictError :: "string \<Rightarrow> error option \<Rightarrow> error" where
  "NewConflictError message cause = AppError ErrConflict message cause"

definition NewInternalError :: "string \<Rightarrow> error option \<Rightarrow> error" where
  "NewInternalError message cause = AppError ErrInternal message cause"

text \<open>
  \<open>errors.As(err, &appErr)\<close> walks the chain of wrapped errors and stops at the first
  \<open>AppError\<close>: the error itself, or what \<open>fmt.Errorf\<close> wraps; the library errors wrap
  no \<open>AppError\<close>. \<open>IsNotFound\<close> then compares the type found with \<open>ErrNotFound\<close>.
\<close>

fun errors_As_AppError :: "error \<Rightarrow> (err_type \<times> string \<times> error option) option" where
  "errors_As_AppError (AppError t message cause) = Some (t, message, cause)"
| "errors_As_AppError (Errorf message err) = errors_As_AppError err"
| "errors_As_AppError (GormError e) = None"
| "errors_As_AppError (RedisError e) = None"
| "errors_As_AppError (ValidatorError e) = None"

definition IsNotFound :: "error \<Rightarrow> bool" where
  "IsNotFound err =
     (case errors_As_AppError err of
        Some (t, message, cause) \<Rightarrow> t = ErrNotFound
      | None \<Rightarrow> False)"

section \<open>The cache adapter (Redis client)\<close>

text \<open>
  The cache is a shared key-value space: a list of entries (key, payload, expiry in
  seconds). The passage of time is not modelled; an entry stays until it is deleted.
  Any command may fail (connection loss, timeout): \<open>cache_faults\<close> scripts the outcome
  of the coming commands, \<open>True\<close> for a command that fails, and a command beyond the
  script succeeds. A failed command has no effect on the entries. \<open>cache_log\<close> records
  every command issued, in order.
\<close>

datatype cache_op =
    OpGet string
  | OpSet string string nat
  | OpDel "string list"
  | OpKeys string

record cache_state =
  entries :: "(string \<times> string \<times> nat) list"
  cache_faults :: "bool list"
  cache_log :: "cache_op list"

definition cache_call :: "cache_op \<Rightarrow> cache_state \<Rightarrow> bool \<times> cache_state" where
  "cache_call op c =
     (case cache_faults c of
        [] \<Rightarrow> (False, c\<lparr>cache_log := cache_log c @ [op]\<rparr>)
      | f # fs \<Rightarrow> (f, c\<lparr>cache_faults := fs, cache_log := cache_log c @ [op]\<rparr>))"

definition redis_Get :: "string \<Rightarrow> cache_state \<Rightarrow> (cache_error + string) \<times> cache_state" where
  "redis_Get key c =
     (case cache_call (OpGet key) c of
        (True, c') \<Rightarrow> (Inl CacheFailure, c')
      | (False, c') \<Rightarrow>
          (case map_of (entries c') key of
             None \<Rightarrow> (Inl redis_Nil, c')
           | Some (payload, ttl) \<Rightarrow> (Inr payload, c')))"

definition redis_Set ::
  "string \<Rightarrow> string \<Rightarrow> nat \<Rightarrow> cache_state \<Rightarrow> cache_error option \<times> cache_state" where
  "redis_Set key payload ttl c =
     (case cache_call (OpSet key payload ttl) c of
        (True, c') \<Rightarrow> (Some CacheFailure, c')
      | (False, c') \<Rightarrow>
          (None, c'\<lparr>entries := (key, payload, ttl) # filter (\<lambda>e. fst e \<noteq> key) (entries c')\<rparr>))"

definition redis_Del :: "string list \<Rightarrow> cache_state \<Rightarrow> cache_error option \<times> cache_state" where
  "redis_Del keys c =
     (case cache_call (OpDel keys) c of
        (True, c') \<Rightarrow> (Some CacheFailure, c')
      | (False, c') \<Rightarrow>
          (None, c'\<lparr>entries := filter (\<lambda>e. fst e \<notin> set keys) (entries c')\<rparr>))"

text \<open>
  \<open>KEYS pattern\<close> matches glob-style: \<open>*\<close> stands for any run of characters, \<open>?\<close> for
  one character, any other character for itself (the two patterns of the repository
  use no bracket class and no escape).
\<close>

fun glob_match :: "string \<Rightarrow> string \<Rightarrow> bool" where
  "glob_match [] s = (s = [])"
| "glob_match (p # ps) [] = (p = CHR ''*'' \<and> glob_match ps [])"
| "glob_match (p # ps) (c # cs) =
     (if p = CHR ''*'' then glob_match ps (c # cs) \<or> glob_match (p # ps) cs
      else (p = CHR ''?'' \<or> p = c) \<and> glob_match ps cs)"

definition redis_Keys ::
  "string \<Rightarrow> cache_state \<Rightarrow> (cache_error + string list) \<times> cache_state" where
  "redis_Keys pattern c =
     (case cache_call (OpKeys pattern) c of
        (True, c') \<Rightarrow> (Inl CacheFailure, c')
      | (False, c') \<Rightarrow>
          (Inr (map fst (filter (\<lambda>e. glob_match pattern (fst e)) (entries c'))), c'))"

definition Minute :: nat where
  "Minute = 60"

section \<open>The store adapter (ORM over the relational store)\<close>

text \<open>
  A collection query as the repository assembles it, clause by clause, before the
  database runs it.
\<close>

record query =
  q_category_id :: "uuid option"
  q_price_min :: "float64 option"
  q_price_max :: "float64 option"
  q_like :: "string option"
  q_is_active :: "bool option"
  q_stock_positive :: bool
  q_order :: "string option"
  q_offset :: "int option"
  q_limit :: "int option"

datatype db_op =
    DbCreate product
  | DbFirstByID uuid
  | DbFirstBySKU string
  | DbSave product
  | DbDelete uuid
  | DbCount query
  | DbFind query
  | DbFirstCategory uuid

text \<open>
  The store holds the rows of tables \<open>products\<close> and \<open>categories\<close>; a product row has
  no \<open>Category\<close> association, which \<open>Preload("Category")\<close> fills on a read.
  \<open>fresh_uuid\<close> and \<open>fresh_category_uuid\<close> are the values the column default
  \<open>gen_random_uuid()\<close> yields on the next insert into each table. Any statement may
  fail for a reason outside the program (connection loss, a unique constraint,
  cancelled context): \<open>db_faults\<close> scripts the outcome of the coming statements,
  \<open>Some msg\<close> for a statement that fails with driver error \<open>msg\<close>, and a statement
  beyond the script runs. A failed statement changes no row. \<open>db_log\<close> records every
  statement issued, in order.
\<close>

record db_state =
  tbl_products :: "product list"
  tbl_categories :: "category list"
  fresh_uuid :: uuid
  fresh_category_uuid :: uuid
  db_faults :: "string option list"
  db_log :: "db_op list"

definition db_call :: "db_op \<Rightarrow> db_state \<Rightarrow> string option \<times> db_state" where
  "db_call op d =
     (case db_faults d of
        [] \<Rightarrow> (None, d\<lparr>db_log := db_log d @ [op]\<rparr>)
      | f # fs \<Rightarrow> (f, d\<lparr>db_faults := fs, db_log := db_log d @ [op]\<rparr>))"

definition row_of :: "product \<Rightarrow> product" where
  "row_of p = p\<lparr>Category := None\<rparr>"

definition preload_Category :: "db_state \<Rightarrow> product \<Rightarrow> product" where
  "preload_Category d p =
     p\<lparr>Category := find (\<lambda>c. cat_ID c = CategoryID p) (tbl_categories d)\<rparr>"

text \<open>
  What the ORM does with the struct tags on an insert: a field with a default whose
  value is the zero value gets the default, in the row and in the caller's struct
  (\<open>default:gen_random_uuid()\<close> for the ids, \<open>default:true\<close> for the active flags;
  \<open>default:0\<close> of the stock is the zero value itself).
\<close>

definition product_defaults :: "db_state \<Rightarrow> product \<Rightarrow> product" where
  "product_defaults d p =
     (let p1 = (if ID p = uuid_Nil then p\<lparr>ID := fresh_uuid d\<rparr> else p);
          p2 = (if \<not> IsActive p1 then p1\<lparr>IsActive := True\<rparr> else p1)
      in p2)"

definition category_defaults :: "db_state \<Rightarrow> category \<Rightarrow> category" where
  "category_defaults d c =
     (let c1 = (if cat_ID c = uuid_Nil then c\<lparr>cat_ID := fresh_category_uuid d\<rparr> else c);
          c2 = (if \<not> cat_IsActive c1 then c1\<lparr>cat_IsActive := True\<rparr> else c1)
      in c2)"

text \<open>
  What the ORM does with the belongs-to association before it writes a product
  (\<open>Create\<close> and \<open>Save\<close> alike): a loaded \<open>Category\<close> is inserted into its table unless
  a row with its id is there already (on conflict do nothing), and the product's
  \<open>CategoryID\<close> is set to the id of that \<open>Category\<close>.
\<close>

definition save_belongs_to :: "product \<Rightarrow> db_state \<Rightarrow> product \<times> db_state" where
  "save_belongs_to p d =
     (case Category p of
        None \<Rightarrow> (p, d)
      | Some c \<Rightarrow>
          (let c' = category_defaults d c;
               d' = (if list_ex (\<lambda>r. cat_ID r = cat_ID c') (tbl_categories d) then d
                     else d\<lparr>tbl_categories := tbl_categories d @ [c']\<rparr>)
           in (p\<lparr>Category := Some c', CategoryID := cat_ID c'\<rparr>, d')))"

text \<open>
  The insert of a product row, with the defaults; an id that a row already has
  violates the primary key.
\<close>

definition insert_product :: "product \<Rightarrow> db_state \<Rightarrow> (db_error + product) \<times> db_state" where
  "insert_product p d =
     (let p' = product_defaults d p in
      if list_ex (\<lambda>r. ID r = ID p') (tbl_products d)
      then (Inl (DbFailure ''duplicate key value violates unique constraint''), d)
      else (Inr p', d\<lparr>tbl_products := tbl_products d @ [row_of p']\<rparr>))"

text \<open>
  \<open>Create(product)\<close>: the association, then the insert, in one transaction (a failed
  insert leaves no row of either table); the caller's struct receives what the ORM
  wrote into it.
\<close>

definition db_Create :: "product \<Rightarrow> db_state \<Rightarrow> (db_error + product) \<times> db_state" where
  "db_Create p d =
     (case db_call (DbCreate p) d of
        (Some msg, d') \<Rightarrow> (Inl (DbFailure msg), d')
      | (None, d') \<Rightarrow>
          (case save_belongs_to p d' of (p1, d1) \<Rightarrow>
             (case insert_product p1 d1 of
                (Inl err, d2) \<Rightarrow> (Inl err, d')
              | (Inr p2, d2) \<Rightarrow> (Inr p2, d2))))"

text \<open>\<open>Preload("Category").First(&product, "id = ?", id)\<close>.\<close>

definition db_First_by_id :: "uuid \<Rightarrow> db_state \<Rightarrow> (db_error + product) \<times> db_state" where
  "db_First_by_id pid d =
     (case db_call (DbFirstByID pid) d of
        (Some msg, d') \<Rightarrow> (Inl (DbFailure msg), d')
      | (None, d') \<Rightarrow>
          (case find (\<lambda>p. ID p = pid) (tbl_products d') of
             None \<Rightarrow> (Inl ErrRecordNotFound, d')
           | Some p \<Rightarrow> (Inr (preload_Category d' p), d')))"

text \<open>\<open>Preload("Category").First(&product, "sku = ?", sku)\<close>.\<close>

definition db_First_by_sku :: "string \<Rightarrow> db_state \<Rightarrow> (db_error + product) \<times> db_state" where
  "db_First_by_sku sku d =
     (case db_call (DbFirstBySKU sku) d of
        (Some msg, d') \<Rightarrow> (Inl (DbFailure msg), d')
      | (None, d') \<Rightarrow>
          (case find (\<lambda>p. SKU p = sku) (tbl_products d') of
             None \<Rightarrow> (Inl ErrRecordNotFound, d')
           | Some p \<Rightarrow> (Inr (preload_Category d' p), d')))"

text \<open>
  \<open>Save(product)\<close>: with a zero id it is \<open>Create\<close>. Otherwise the association is
  saved first, then every column of the row with the product's id is rewritten from
  the struct; when no row has that id the struct is inserted instead, with the
  defaults.
\<close>

definition db_Save :: "product \<Rightarrow> db_state \<Rightarrow> (db_error + product) \<times> db_state" where
  "db_Save p d =
     (case db_call (DbSave p) d of
        (Some msg, d') \<Rightarrow> (Inl (DbFailure msg), d')
      | (None, d') \<Rightarrow>
          (case save_belongs_to p d' of (p1, d1) \<Rightarrow>
             if ID p = uuid_Nil then
               (case insert_product p1 d1 of
                  (Inl err, d2) \<Rightarrow> (Inl err, d')
                | (Inr p2, d2) \<Rightarrow> (Inr p2, d2))
             else if list_ex (\<lambda>r. ID r = ID p1) (tbl_products d1) then
               (Inr p1, d1\<lparr>tbl_products :=
                            map (\<lambda>r. if ID r = ID p1 then row_of p1 else r) (tbl_products d1)\<rparr>)
             else
               (let p2 = product_defaults d1 p1
                in (Inr p2, d1\<lparr>tbl_products := tbl_products d1 @ [row_of p2]\<rparr>))))"

text \<open>\<open>Delete(&domain.Product{}, "id = ?", id)\<close>: no row matching is not an error.\<close>

definition db_Delete :: "uuid \<Rightarrow> db_state \<Rightarrow> db_error option \<times> db_state" where
  "db_Delete pid d =
     (case db_call (DbDelete pid) d of
        (Some msg, d') \<Rightarrow> (Some (DbFailure msg), d')
      | (None, d') \<Rightarrow>
          (None, d'\<lparr>tbl_products := filter (\<lambda>r. ID r \<noteq> pid) (tbl_products d')\<rparr>))"

text \<open>\<open>First(&category, "id = ?", id)\<close>.\<close>

definition db_First_category :: "uuid \<Rightarrow> db_state \<Rightarrow> (db_error + category) \<times> db_state" where
  "db_First_category pid d =
     (case db_call (DbFirstCategory pid) d of
        (Some msg, d') \<Rightarrow> (Inl (DbFailure msg), d')
      | (None, d') \<Rightarrow>
          (case find (\<lambda>c. cat_ID c = pid) (tbl_categories d') of
             None \<Rightarrow> (Inl ErrRecordNotFound, d')
           | Some c \<Rightarrow> (Inr c, d')))"

section \<open>What the program takes from its libraries\<close>

text \<open>
  The functions of libraries that the repository and the service call and whose
  results they only pass on: \<open>encoding/json\<close> for the two cached payload types,
  \<open>strings.ToLower\<close> and \<open>strings.ToUpper\<close>, the rows the database engine selects for
  a query (matching, ordered and paged), and the struct validator (\<open>None\<close> for a valid
  request, the validator's message otherwise). They are parameters: nothing is
  assumed of them.
\<close>

record externals =
  json_Marshal_product :: "product \<Rightarrow> string option"
  json_Unmarshal_product :: "string \<Rightarrow> product option"
  json_Marshal_list :: "product list \<times> int \<Rightarrow> string option"
  json_Unmarshal_list :: "string \<Rightarrow> (product list \<times> int) option"
  strings_ToLower :: "string \<Rightarrow> string"
  strings_ToUpper :: "string \<Rightarrow> string"
  sql_rows :: "query \<Rightarrow> product list \<Rightarrow> product list"
  validate_create :: "CreateProductRequest \<Rightarrow> string option"
  validate_update :: "UpdateProductRequest \<Rightarrow> string option"

definition db_Count :: "externals \<Rightarrow> query \<Rightarrow> db_state \<Rightarrow> (db_error + int) \<times> db_state" where
  "db_Count X q d =
     (case db_call (DbCount q) d of
        (Some msg, d') \<Rightarrow> (Inl (DbFailure msg), d')
      | (None, d') \<Rightarrow> (Inr (int (length (sql_rows X q (tbl_products d')))), d'))"

definition db_Find ::
  "externals \<Rightarrow> query \<Rightarrow> db_state \<Rightarrow> (db_error + product list) \<times> db_state" where
  "db_Find X q d =
     (case db_call (DbFind q) d of
        (Some msg, d') \<Rightarrow> (Inl (DbFailure msg), d')
      | (None, d') \<Rightarrow> (Inr (map (preload_Category d') (sql_rows X q (tbl_products d'))), d'))"

section \<open>The repository (\<open>productRepository\<close>)\<close>

text \<open>
  The repository works on the store and the cache together. A method returns its Go
  result paired with the state it leaves; a method that writes through its pointer
  argument also returns the struct as written.
\<close>

record world =
  db :: db_state
  redis :: cache_state

definition Create :: "product \<Rightarrow> world \<Rightarrow> (error option \<times> product) \<times> world" where
  "Create product w =
     (case db_Create product (db w) of
        (Inl err, d1) \<Rightarrow>
          ((Some (Errorf ''failed to create product'' (GormError err)), product), w\<lparr>db := d1\<rparr>)
      | (Inr product', d1) \<Rightarrow> ((None, product'), w\<lparr>db := d1\<rparr>))"

definition GetByID :: "externals \<Rightarrow> uuid \<Rightarrow> world \<Rightarrow> (error + product) \<times> world" where
  "GetByID X pid w =
     (let cacheKey = ''product:'' @ uuid_String pid in
      case redis_Get cacheKey (redis w) of (cached, c1) \<Rightarrow>
        (case (case cached of
                 Inr payload \<Rightarrow> json_Unmarshal_product X payload
               | Inl err \<Rightarrow> None) of
           Some product \<Rightarrow> (Inr product, w\<lparr>redis := c1\<rparr>)
         | None \<Rightarrow>
             (case db_First_by_id pid (db w) of
                (Inl err, d1) \<Rightarrow>
                  (if err = ErrRecordNotFound
                   then Inl (NewNotFoundError ''Product not found'' (Some (GormError err)))
                   else Inl (Errorf ''failed to get product'' (GormError err)),
                   \<lparr>db = d1, redis = c1\<rparr>)
              | (Inr product, d1) \<Rightarrow>
                  (let c2 = (case json_Marshal_product X product of
                               Some productJSON \<Rightarrow>
                                 snd (redis_Set cacheKey productJSON (10 * Minute) c1)
                             | None \<Rightarrow> c1)
                   in (Inr product, \<lparr>db = d1, redis = c2\<rparr>)))))"

definition GetBySKU :: "string \<Rightarrow> world \<Rightarrow> (error + product) \<times> world" where
  "GetBySKU sku w =
     (case db_First_by_sku sku (db w) of
        (Inl err, d1) \<Rightarrow>
          (if err = ErrRecordNotFound
           then Inl (NewNotFoundError ''Product not found'' (Some (GormError err)))
           else Inl (Errorf ''failed to get product by SKU'' (GormError err)),
           w\<lparr>db := d1\<rparr>)
      | (Inr product, d1) \<Rightarrow> (Inr product, w\<lparr>db := d1\<rparr>))"

definition Update :: "product \<Rightarrow> world \<Rightarrow> (error option \<times> product) \<times> world" where
  "Update product w =
     (case db_Save product (db w) of
        (Inl err, d1) \<Rightarrow>
          ((Some (Errorf ''failed to update product'' (GormError err)), product), w\<lparr>db := d1\<rparr>)
      | (Inr product', d1) \<Rightarrow>
          (let cacheKey = ''product:'' @ uuid_String (ID product');
               c1 = snd (redis_Del [cacheKey] (redis w))
           in ((None, product'), \<lparr>db = d1, redis = c1\<rparr>)))"

definition Delete :: "uuid \<Rightarrow> world \<Rightarrow> error option \<times> world" where
  "Delete pid w =
     (case db_Delete pid (db w) of
        (Some err, d1) \<Rightarrow>
          (Some (Errorf ''failed to delete product'' (GormError err)), w\<lparr>db := d1\<rparr>)
      | (None, d1) \<Rightarrow>
          (let cacheKey = ''product:'' @ uuid_String pid;
               c1 = snd (redis_Del [cacheKey] (redis w))
           in (None, \<lparr>db = d1, redis = c1\<rparr>)))"

definition GetCategory :: "uuid \<Rightarrow> world \<Rightarrow> (error + category) \<times> world" where
  "GetCategory pid w =
     (case db_First_category pid (db w) of
        (Inl err, d1) \<Rightarrow>
          (if err = ErrRecordNotFound
           then Inl (NewNotFoundError ''Category not found'' (Some (GormError err)))
           else Inl (Errorf ''failed to get category'' (GormError err)),
           w\<lparr>db := d1\<rparr>)
      | (Inr category, d1) \<Rightarrow> (Inr category, w\<lparr>db := d1\<rparr>))"

text \<open>
  \<open>List\<close>: the cache probe for a cacheable filter set, then the query assembled from
  the filters, the count before ordering and paging, the page, and the cache write.
  The three commented steps of the source that assemble the query (apply filters,
  apply sorting, apply pagination) are named.
\<close>

definition apply_filters :: "externals \<Rightarrow> ProductFilters \<Rightarrow> query" where
  "apply_filters X filters =
     \<lparr>q_category_id = flt_CategoryID filters,
      q_price_min = MinPrice filters,
      q_price_max = MaxPrice filters,
      q_like = (if Search filters \<noteq> []
                then Some (''%'' @ strings_ToLower X (Search filters) @ ''%'')
                else None),
      q_is_active = flt_IsActive filters,
      q_stock_positive = (InStock filters = Some True),
      q_order = None, q_offset = None, q_limit = None\<rparr>"

definition apply_sorting :: "externals \<Rightarrow> ProductFilters \<Rightarrow> query \<Rightarrow> query" where
  "apply_sorting X filters q =
     (let orderClause = SortBy filters @ '' '' @ strings_ToUpper X (SortOrder filters)
      in q\<lparr>q_order := Some orderClause\<rparr>)"

definition apply_pagination :: "ProductFilters \<Rightarrow> query \<Rightarrow> query" where
  "apply_pagination filters q =
     (let q1 = (if Offset filters > 0 then q\<lparr>q_offset := Some (Offset filters)\<rparr> else q);
          q2 = (if Limit filters > 0 then q1\<lparr>q_limit := Some (Limit filters)\<rparr> else q1)
      in q2)"

definition List :: "externals \<Rightarrow> ProductFilters \<Rightarrow> world \<Rightarrow> (error + product list \<times> int) \<times> world" where
  "List X filters w =
     (let cacheKey = buildCacheKey filters in
      case (if cacheKey \<noteq> [] then
              (case redis_Get cacheKey (redis w) of
                 (Inr cached, c1) \<Rightarrow> (json_Unmarshal_list X cached, c1)
               | (Inl err, c1) \<Rightarrow> (None, c1))
            else (None, redis w)) of
        (Some result, c1) \<Rightarrow> (Inr result, w\<lparr>redis := c1\<rparr>)
      | (None, c1) \<Rightarrow>
          (let query0 = apply_filters X filters in
           case db_Count X query0 (db w) of
             (Inl err, d1) \<Rightarrow>
               (Inl (Errorf ''failed to count products'' (GormError err)),
                \<lparr>db = d1, redis = c1\<rparr>)
           | (Inr total_n, d1) \<Rightarrow>
               (let query1 = apply_pagination filters (apply_sorting X filters query0) in
                case db_Find X query1 d1 of
                  (Inl err, d2) \<Rightarrow>
                    (Inl (Errorf ''failed to list products'' (GormError err)),
                     \<lparr>db = d2, redis = c1\<rparr>)
                | (Inr products, d2) \<Rightarrow>
                    (let c2 = (if cacheKey \<noteq> [] then
                                 (case json_Marshal_list X (products, total_n) of
                                    Some resultJSON \<Rightarrow>
                                      snd (redis_Set cacheKey resultJSON (5 * Minute) c1)
                                  | None \<Rightarrow> c1)
                               else c1)
                     in (Inr (products, total_n), \<lparr>db = d2, redis = c2\<rparr>)))))"

text \<open>
  \<open>InvalidateProductCache\<close>, with its returns where the source has them: after a
  failed \<open>KEYS\<close>, after the deletion of the keys matching \<open>product:*\<close> when there are
  any, after a failed second \<open>KEYS\<close>, after the deletion of the keys matching
  \<open>products:*\<close> when there are any, and at the end.
\<close>

definition InvalidateProductCache :: "world \<Rightarrow> error option \<times> world" where
  "InvalidateProductCache w =
     (case redis_Keys ''product:*'' (redis w) of
        (Inl err, c1) \<Rightarrow> (Some (RedisError err), w\<lparr>redis := c1\<rparr>)
      | (Inr keys, c1) \<Rightarrow>
          if length keys > 0 then
            (case redis_Del keys c1 of (err, c2) \<Rightarrow> (map_option RedisError err, w\<lparr>redis := c2\<rparr>))
          else
            (case redis_Keys ''products:*'' c1 of
               (Inl err, c2) \<Rightarrow> (Some (RedisError err), w\<lparr>redis := c2\<rparr>)
             | (Inr listKeys, c2) \<Rightarrow>
                 if length listKeys > 0 then
                   (case redis_Del listKeys c2 of
                      (err, c3) \<Rightarrow> (map_option RedisError err, w\<lparr>redis := c3\<rparr>))
                 else (None, w\<lparr>redis := c2\<rparr>)))"

section \<open>The service (\<open>productService\<close>)\<close>

text \<open>
  The service methods that mutate products or list them. Logging has no effect on
  the store or the cache and is left out.
\<close>

definition CreateProduct ::
  "externals \<Rightarrow> CreateProductRequest \<Rightarrow> world \<Rightarrow> (error + product) \<times> world" where
  "CreateProduct X req w =
     (case validate_create X req of
        Some msg \<Rightarrow> (Inl (NewValidationError ''Invalid request'' (Some (ValidatorError msg))), w)
      | None \<Rightarrow>
          (case GetBySKU (cr_SKU req) w of (existing, w1) \<Rightarrow>
             (case (case existing of
                      Inl err \<Rightarrow>
                        (if \<not> IsNotFound err
                         then Some (NewInternalError ''Failed to validate SKU'' (Some err))
                         else None)
                    | Inr p \<Rightarrow> Some (NewConflictError ''SKU already exists'' None)) of
                Some failure \<Rightarrow> (Inl failure, w1)
              | None \<Rightarrow>
                  (case GetCategory (cr_CategoryID req) w1 of
                     (Inl err, w2) \<Rightarrow>
                       (if IsNotFound err
                        then Inl (NewNotFoundError ''Category not found'' (Some err))
                        else Inl (NewInternalError ''Failed to verify category'' (Some err)),
                        w2)
                   | (Inr category, w2) \<Rightarrow>
                       (let product =
                              \<lparr>ID = uuid_Nil,
                               Name = cr_Name req,
                               Description = cr_Description req,
                               Price = cr_Price req,
                               CategoryID = cr_CategoryID req,
                               Category = None,
                               Stock = cr_Stock req,
                               ImageURL = cr_ImageURL req,
                               SKU = cr_SKU req,
                               IsActive = True\<rparr>
                        in case Create product w2 of
                             ((Some err, product'), w3) \<Rightarrow>
                               (Inl (NewInternalError ''Failed to create product'' (Some err)), w3)
                           | ((None, product'), w3) \<Rightarrow>
                               (Inr product', snd (InvalidateProductCache w3)))))))"

definition UpdateProduct ::
  "externals \<Rightarrow> uuid \<Rightarrow> UpdateProductRequest \<Rightarrow> world \<Rightarrow> (error + product) \<times> world" where
  "UpdateProduct X pid req w =
     (case validate_update X req of
        Some msg \<Rightarrow> (Inl (NewValidationError ''Invalid request'' (Some (ValidatorError msg))), w)
      | None \<Rightarrow>
          (case GetByID X pid w of
             (Inl err, w1) \<Rightarrow>
               (if IsNotFound err
                then Inl (NewNotFoundError ''Product not found'' (Some err))
                else Inl (NewInternalError ''Failed to get product'' (Some err)),
                w1)
           | (Inr product, w1) \<Rightarrow>
               (case (case up_SKU req of
                        None \<Rightarrow> (None, w1)
                      | Some sku \<Rightarrow>
                          if sku \<noteq> SKU product then
                            (case GetBySKU sku w1 of
                               (Inl err, w2) \<Rightarrow>
                                 (if \<not> IsNotFound err
                                  then Some (NewInternalError ''Failed to validate SKU'' (Some err))
                                  else None,
                                  w2)
                             | (Inr existing, w2) \<Rightarrow>
                                 (Some (NewConflictError ''SKU already exists'' None), w2))
                          else (None, w1)) of
                  (Some failure, w2) \<Rightarrow> (Inl failure, w2)
                | (None, w2) \<Rightarrow>
                    (case (case up_CategoryID req of
                             None \<Rightarrow> (None, w2)
                           | Some cid \<Rightarrow>
                               (case GetCategory cid w2 of
                                  (Inl err, w3) \<Rightarrow>
                                    (if IsNotFound err
                                     then Some (NewNotFoundError ''Category not found'' (Some err))
                                     else Some (NewInternalError ''Failed to verify category'' (Some err)),
                                     w3)
                                | (Inr category, w3) \<Rightarrow> (None, w3))) of
                       (Some failure, w3) \<Rightarrow> (Inl failure, w3)
                     | (None, w3) \<Rightarrow>
                         (let p1 = (case up_Name req of
                                      Some v \<Rightarrow> product\<lparr>Name := v\<rparr> | None \<Rightarrow> product);
                              p2 = (case up_Description req of
                                      Some v \<Rightarrow> p1\<lparr>Description := v\<rparr> | None \<Rightarrow> p1);
                              p3 = (case up_Price req of
                                      Some v \<Rightarrow> p2\<lparr>Price := v\<rparr> | None \<Rightarrow> p2);
                              p4 = (case up_CategoryID req of
                                      Some v \<Rightarrow> p3\<lparr>CategoryID := v\<rparr> | None \<Rightarrow> p3);
                              p5 = (case up_Stock req of
                                      Some v \<Rightarrow> p4\<lparr>Stock := v\<rparr> | None \<Rightarrow> p4);
                              p6 = (case up_ImageURL req of
                                      Some v \<Rightarrow> p5\<lparr>ImageURL := v\<rparr> | None \<Rightarrow> p5);
                              p7 = (case up_SKU req of
                                      Some v \<Rightarrow> p6\<lparr>SKU := v\<rparr> | None \<Rightarrow> p6);
                              p8 = (case up_IsActive req of
                                      Some v \<Rightarrow> p7\<lparr>IsActive := v\<rparr> | None \<Rightarrow> p7)
                          in case Update p8 w3 of
                               ((Some err, product'), w4) \<Rightarrow>
                                 (Inl (NewInternalError ''Failed to update product'' (Some err)), w4)
                             | ((None, product'), w4) \<Rightarrow>
                                 (Inr product', snd (InvalidateProductCache w4)))))))"

definition DeleteProduct :: "externals \<Rightarrow> uuid \<Rightarrow> world \<Rightarrow> error option \<times> world" where
  "DeleteProduct X pid w =
     (case GetByID X pid w of
        (Inl err, w1) \<Rightarrow>
          (if IsNotFound err
           then Some (NewNotFoundError ''Product not found'' (Some err))
           else Some (NewInternalError ''Failed to get product'' (Some err)),
           w1)
      | (Inr product, w1) \<Rightarrow>
          (case Delete pid w1 of
             (Some err, w2) \<Rightarrow>
               (Some (NewInternalError ''Failed to delete product'' (Some err)), w2)
           | (None, w2) \<Rightarrow> (None, snd (InvalidateProductCache w2))))"

text \<open>
  Go's \<open>int\<close> is 64 bits wide on the platforms the service is built for, and
  \<open>filters.Offset + filters.Limit\<close> wraps around.
\<close>

definition wrap_int64 :: "int \<Rightarrow> int" where
  "wrap_int64 x = (x + 2 ^ 63) mod 2 ^ 64 - 2 ^ 63"

definition ListProducts ::
  "externals \<Rightarrow> ProductFilters \<Rightarrow> world \<Rightarrow> (error + ProductList) \<times> world" where
  "ListProducts X filters w =
     (let f1 = (if Limit filters \<le> 0 then filters\<lparr>Limit := 20\<rparr> else filters);
          f2 = (if Limit f1 > 100 then f1\<lparr>Limit := 100\<rparr> else f1);
          f3 = (if SortBy f2 = [] then f2\<lparr>SortBy := ''created_at''\<rparr> else f2);
          f4 = (if SortOrder f3 = [] then f3\<lparr>SortOrder := ''desc''\<rparr> else f3)
      in case List X f4 w of
           (Inl err, w1) \<Rightarrow> (Inl (NewInternalError ''Failed to list products'' (Some err)), w1)
         | (Inr (products, total_n), w1) \<Rightarrow>
             (Inr \<lparr>Products = products,
                   Total = total_n,
                   pl_Limit = Limit f4,
                   pl_Offset = Offset f4,
                   HasMore = (wrap_int64 (Offset f4 + Limit f4) < total_n)\<rparr>,
              w1))"

definition SearchProducts ::
  "externals \<Rightarrow> string \<Rightarrow> ProductFilters \<Rightarrow> world \<Rightarrow> (error + ProductList) \<times> world" where
  "SearchProducts X query filters w =
     (if query = [] then ListProducts X filters w
      else ListProducts X (filters\<lparr>Search := query\<rparr>) w)"

text \<open>
  The defaults of a collection read as the specification words them: a limit of zero
  or below becomes 20, a limit above 100 becomes 100, an unset sort field becomes the
  creation time, an unset sort direction becomes descending.
\<close>

definition normalize_defaults :: "ProductFilters \<Rightarrow> ProductFilters" where
  "normalize_defaults f =
     f\<lparr>Limit := (if Limit f \<le> 0 then 20 else if Limit f > 100 then 100 else Limit f),
       SortBy := (if SortBy f = [] then ''created_at'' else SortBy f),
       SortOrder := (if SortOrder f = [] then ''desc'' else SortOrder f)\<rparr>"

section \<open>A concrete catalogue\<close>

text \<open>
  Two categories, one stored product (SKU X1, price 10.0) and its update to price 20.0,
  used to run the operations on concrete states. \<open>demo_externals\<close> instantiates the
  library functions: a payload codec that round-trips the demonstration values as
  \<open>encoding/json\<close> does, case mapping on the sort directions, an engine that applies
  the category, active and stock clauses and the page, and a validator that accepts
  every request.
\<close>

definition demo_id :: uuid where
  "demo_id = UUID ''11111111-1111-1111-1111-111111111111''"

definition demo_other_id :: uuid where
  "demo_other_id = UUID ''22222222-2222-2222-2222-222222222222''"

definition demo_fresh_id :: uuid where
  "demo_fresh_id = UUID ''44444444-4444-4444-4444-444444444444''"

definition demo_category :: category where
  "demo_category =
     \<lparr>cat_ID = UUID ''33333333-3333-3333-3333-333333333333'', cat_Name = ''Audio'',
      cat_Description = [], cat_ParentID = None, cat_IsActive = True\<rparr>"

definition demo_other_category :: category where
  "demo_other_category =
     \<lparr>cat_ID = UUID ''55555555-5555-5555-5555-555555555555'', cat_Name = ''Video'',
      cat_Description = [], cat_ParentID = None, cat_IsActive = True\<rparr>"

definition demo_old :: product where
  "demo_old =
     \<lparr>ID = demo_id, Name = ''Headphones'', Description = ''Wireless headphones'',
      Price = 0x4024000000000000,
      CategoryID = UUID ''33333333-3333-3333-3333-333333333333'',
      Category = Some demo_category, Stock = 5, ImageURL = [], SKU = ''X1'',
      IsActive = True\<rparr>"

definition demo_new :: product where
  "demo_new = demo_old\<lparr>Price := 0x4034000000000000\<rparr>"

text \<open>
  The stored product as \<open>UpdateProduct\<close> hands it to \<open>Update\<close> for a change of
  category: the new category id in \<open>CategoryID\<close>, the association loaded by the
  earlier read still in \<open>Category\<close>.
\<close>

definition demo_recategorized :: product where
  "demo_recategorized = demo_old\<lparr>CategoryID := UUID ''55555555-5555-5555-5555-555555555555''\<rparr>"

definition demo_created :: product where
  "demo_created =
     \<lparr>ID = demo_fresh_id, Name = ''Speaker'', Description = [],
      Price = 0x4034000000000000,
      CategoryID = UUID ''33333333-3333-3333-3333-333333333333'',
      Category = None, Stock = 3, ImageURL = [], SKU = ''X2'', IsActive = True\<rparr>"

definition demo_create_request :: CreateProductRequest where
  "demo_create_request =
     \<lparr>cr_Name = ''Speaker'', cr_Description = [], cr_Price = 0x4034000000000000,
      cr_CategoryID = UUID ''33333333-3333-3333-3333-333333333333'',
      cr_Stock = 3, cr_ImageURL = [], cr_SKU = ''X2''\<rparr>"

definition demo_update_request :: UpdateProductRequest where
  "demo_update_request =
     \<lparr>up_Name = None, up_Description = None, up_Price = Some 0x4034000000000000,
      up_CategoryID = None, up_Stock = None, up_ImageURL = None, up_SKU = None,
      up_IsActive = None\<rparr>"

definition demo_select :: "query \<Rightarrow> product list \<Rightarrow> product list" where
  "demo_select q rows =
     (let matching =
            filter (\<lambda>r. (case q_category_id q of None \<Rightarrow> True | Some c \<Rightarrow> CategoryID r = c)
                      \<and> (case q_is_active q of None \<Rightarrow> True | Some a \<Rightarrow> IsActive r = a)
                      \<and> (if q_stock_positive q then Stock r > 0 else True)) rows;
          skipped = (case q_offset q of None \<Rightarrow> matching | Some n \<Rightarrow> drop (nat n) matching)
      in case q_limit q of None \<Rightarrow> skipped | Some n \<Rightarrow> take (nat n) skipped)"

definition demo_externals :: externals where
  "demo_externals =
     \<lparr>json_Marshal_product =
        (\<lambda>p. if p = demo_old then Some ''{product X1 at price 10.0}''
             else if p = demo_new then Some ''{product X1 at price 20.0}''
             else None),
      json_Unmarshal_product =
        (\<lambda>s. if s = ''{product X1 at price 10.0}'' then Some demo_old
             else if s = ''{product X1 at price 20.0}'' then Some demo_new
             else None),
      json_Marshal_list =
        (\<lambda>r. if r = ([demo_old], 1) then Some ''{products: [X1 at price 10.0], total: 1}''
             else None),
      json_Unmarshal_list =
        (\<lambda>s. if s = ''{products: [X1 at price 10.0], total: 1}'' then Some ([demo_old], 1)
             else None),
      strings_ToLower = (\<lambda>s. s),
      strings_ToUpper =
        (\<lambda>s. if s = ''desc'' then ''DESC'' else if s = ''asc'' then ''ASC'' else s),
      sql_rows = demo_select,
      validate_create = (\<lambda>r. None),
      validate_update = (\<lambda>r. None)\<rparr>"

definition demo_db :: db_state where
  "demo_db =
     \<lparr>tbl_products = [row_of demo_old], tbl_categories = [demo_category, demo_other_category],
      fresh_uuid = demo_fresh_id,
      fresh_category_uuid = UUID ''66666666-6666-6666-6666-666666666666'',
      db_faults = [], db_log = []\<rparr>"

definition demo_world :: world where
  "demo_world = \<lparr>db = demo_db, redis = \<lparr>entries = [], cache_faults = [], cache_log = []\<rparr>\<rparr>"

definition demo_filters :: ProductFilters where
  "demo_filters =
     \<lparr>flt_CategoryID = None, MinPrice = None, MaxPrice = None, Search = [],
      flt_IsActive = None, InStock = None, Limit = 0, Offset = 0,
      SortBy = [], SortOrder = []\<rparr>"

text \<open>
  A cache as earlier reads leave it: the entry of another product and one collection
  entry.
\<close>

definition demo_list_key :: string where
  "demo_list_key = ''products:list:limit_20:offset_0:sort_created_at_desc''"

definition demo_warm_cache :: cache_state where
  "demo_warm_cache =
     \<lparr>entries =
        [(''product:22222222-2222-2222-2222-222222222222'', ''{product X7}'', 600),
         (demo_list_key, ''{products: [X1 at price 10.0], total: 1}'', 300)],
      cache_faults = [], cache_log = []\<rparr>"

definition demo_warm_world :: world where
  "demo_warm_world = \<lparr>db = demo_db, redis = demo_warm_cache\<rparr>"

text \<open>
  The two statements of a collection read with no filter, limit 100 and the default
  order: the count and the page.
\<close>

definition demo_count_query :: query where
  "demo_count_query =
     \<lparr>q_category_id = None, q_price_min = None, q_price_max = None, q_like = None,
      q_is_active = None, q_stock_positive = False,
      q_order = None, q_offset = None, q_limit = None\<rparr>"

definition demo_page_query :: query where
  "demo_page_query =
     demo_count_query\<lparr>q_order := Some ''created_at DESC'', q_limit := Some 100\<rparr>"

text \<open>The page statement of such a read with limit 20: it has no offset clause.\<close>

definition demo_first_page_query :: query where
  "demo_first_page_query =
     demo_count_query\<lparr>q_order := Some ''created_at DESC'', q_limit := Some 20\<rparr>"

text \<open>
  Further states: a cache whose third command fails, a cache holding a payload that
  does not decode, a cache whose next two commands fail, and a store whose next
  statement fails.
\<close>

definition demo_flaky_world :: world where
  "demo_flaky_world =
     \<lparr>db = demo_db, redis = \<lparr>entries = [], cache_faults = [False, False, True], cache_log = []\<rparr>\<rparr>"

definition demo_corrupt_world :: world where
  "demo_corrupt_world =
     \<lparr>db = demo_db,
      redis = \<lparr>entries = [(''product:11111111-1111-1111-1111-111111111111'', ''{produ'', 600)],
               cache_faults = [], cache_log = []\<rparr>\<rparr>"

definition demo_cache_down_world :: world where
  "demo_cache_down_world =
     \<lparr>db = demo_db,
      redis = \<lparr>entries = [(''product:11111111-1111-1111-1111-111111111111'',
                            ''{product X1 at price 10.0}'', 600)],
               cache_faults = [True, True], cache_log = []\<rparr>\<rparr>"

definition demo_store_down_world :: world where
  "demo_store_down_world =
     \<lparr>db = demo_db\<lparr>db_faults := [Some ''connection refused'']\<rparr>, redis = demo_warm_cache\<rparr>"

section \<open>The store lookup of \<open>GetByID\<close>\<close>

text \<open>
  What \<open>GetByID\<close> makes of the store's reply once the cache has given no product (the
  source from the \<open>First\<close> statement to the two error returns): a missing row becomes
  the not-found error, any other failure is wrapped, a row is returned.
\<close>

definition store_result :: "uuid \<Rightarrow> db_state \<Rightarrow> error + product" where
  "store_result pid d =
     (case fst (db_First_by_id pid d) of
        Inl ErrRecordNotFound \<Rightarrow>
          Inl (NewNotFoundError ''Product not found'' (Some (GormError ErrRecordNotFound)))
      | Inl (DbFailure msg) \<Rightarrow> Inl (Errorf ''failed to get product'' (GormError (DbFailure msg)))
      | Inr p \<Rightarrow> Inr p)"

section \<open>Unfolding the operations on concrete states\<close>

lemmas demo_defs = demo_id_def demo_other_id_def demo_fresh_id_def demo_category_def
  demo_other_category_def demo_old_def demo_recategorized_def
  demo_new_def demo_created_def demo_create_request_def demo_update_request_def demo_select_def
  demo_externals_def demo_db_def demo_world_def demo_filters_def demo_list_key_def
  demo_warm_cache_def demo_warm_world_def demo_flaky_world_def demo_corrupt_world_def
  demo_cache_down_world_def demo_store_down_world_def

lemmas op_defs = cache_call_def redis_Get_def redis_Set_def redis_Del_def redis_Keys_def
  db_call_def row_of_def preload_Category_def db_Create_def db_First_by_id_def db_First_by_sku_def
  db_Save_def db_Delete_def db_First_category_def db_Count_def db_Find_def Minute_def uuid_Nil_def
  product_defaults_def category_defaults_def save_belongs_to_def insert_product_def
  IsNotFound_def NewNotFoundError_def NewValidationError_def NewConflictError_def
  NewInternalError_def

lemmas key_defs = buildCacheKey_def fmt_d_def fmt_t_def nat_decimal.simps

section \<open>Properties of the cache keys\<close>

lemma buildCacheKey_simple:
  assumes "Search f = []" and "MinPrice f = None" and "MaxPrice f = None"
  shows "buildCacheKey f =
           ''products:list''
           @ bracketed '':cat_'' uuid_String (flt_CategoryID f)
           @ bracketed '':active_'' fmt_t (flt_IsActive f)
           @ bracketed '':stock_'' fmt_t (InStock f)
           @ '':limit_'' @ fmt_d (Limit f)
           @ '':offset_'' @ fmt_d (Offset f)
           @ '':sort_'' @ SortBy f @ ''_'' @ SortOrder f"
  using assms
  by (simp add: buildCacheKey_def bracketed_def Let_def split: option.splits)

lemma buildCacheKey_complex:
  assumes "Search f \<noteq> [] \<or> MinPrice f \<noteq> None \<or> MaxPrice f \<noteq> None"
  shows "buildCacheKey f = []"
  using assms by (auto simp: buildCacheKey_def)

lemma buildCacheKey_empty_iff:
  "buildCacheKey f = [] \<longleftrightarrow> Search f \<noteq> [] \<or> MinPrice f \<noteq> None \<or> MaxPrice f \<noteq> None"
proof (cases "Search f \<noteq> [] \<or> MinPrice f \<noteq> None \<or> MaxPrice f \<noteq> None")
  case True
  then show ?thesis by (simp add: buildCacheKey_complex)
next
  case False
  then have "buildCacheKey f \<noteq> []"
    by (simp add: buildCacheKey_simple)
  with False show ?thesis by simp
qed

text \<open>
  C3. The key function returns no key (the empty string) exactly for a filter set with
  a non-empty search term or a minimum or maximum price; for every other filter set it
  returns the key of the specified format, the optional parts in the order category,
  active flag, stock flag, followed by limit, offset, sort field and sort direction.
  It is a function of the field values alone: filter sets that agree on every field
  get the same key.
\<close>

theorem C3_buildCacheKey_format:
  "(buildCacheKey f = [] \<longleftrightarrow>
      Search f \<noteq> [] \<or> MinPrice f \<noteq> None \<or> MaxPrice f \<noteq> None)
   \<and> KeyForFilterSet f = (if buildCacheKey f = [] then None else Some (buildCacheKey f))
   \<and> (\<forall>g. same_filter_values f g \<longrightarrow> buildCacheKey g = buildCacheKey f)"
proof (intro conjI allI impI)
  show "buildCacheKey f = [] \<longleftrightarrow>
          Search f \<noteq> [] \<or> MinPrice f \<noteq> None \<or> MaxPrice f \<noteq> None"
    by (rule buildCacheKey_empty_iff)
next
  show "KeyForFilterSet f = (if buildCacheKey f = [] then None else Some (buildCacheKey f))"
  proof (cases "Search f \<noteq> [] \<or> MinPrice f \<noteq> None \<or> MaxPrice f \<noteq> None")
    case True
    then show ?thesis
      by (simp add: buildCacheKey_complex KeyForFilterSet_def)
  next
    case False
    then show ?thesis
      by (simp add: buildCacheKey_simple KeyForFilterSet_def)
  qed
next
  fix g
  assume "same_filter_values f g"
  then show "buildCacheKey g = buildCacheKey f"
    by (simp add: same_filter_values_def buildCacheKey_def)
qed

theorem C3_buildCacheKey_format_witness:
  "same_filter_values filters_demo (filters_demo\<lparr>Limit := 20\<rparr>)
   \<and> buildCacheKey (filters_demo\<lparr>Limit := 20\<rparr>) = buildCacheKey filters_demo
   \<and> KeyForFilterSet filters_demo =
       Some ''products:list:cat_7c9e6679-7425-40de-944b-e07fc1f90ae7:active_true:limit_20:offset_40:sort_price_asc''
   \<and> buildCacheKey filters_demo =
       ''products:list:cat_7c9e6679-7425-40de-944b-e07fc1f90ae7:active_true:limit_20:offset_40:sort_price_asc''"
proof -
  note c3 = C3_buildCacheKey_format [of filters_demo]
  have same: "same_filter_values filters_demo (filters_demo\<lparr>Limit := 20\<rparr>)"
    by (simp add: same_filter_values_def filters_demo_def)
  from c3 same
  have eq: "buildCacheKey (filters_demo\<lparr>Limit := 20\<rparr>) = buildCacheKey filters_demo"
    by blast
  have simple: "\<not> (Search filters_demo \<noteq> [] \<or> MinPrice filters_demo \<noteq> None
                  \<or> MaxPrice filters_demo \<noteq> None)"
    by (simp add: filters_demo_def)
  from c3 simple have nonempty: "buildCacheKey filters_demo \<noteq> []"
    by blast
  from c3 nonempty
  have some: "KeyForFilterSet filters_demo = Some (buildCacheKey filters_demo)"
    by simp
  have key: "KeyForFilterSet filters_demo =
       Some ''products:list:cat_7c9e6679-7425-40de-944b-e07fc1f90ae7:active_true:limit_20:offset_40:sort_price_asc''"
    by (simp add: filters_demo_def KeyForFilterSet_def bracketed_def fmt_d_def fmt_t_def
          nat_decimal.simps)
  from some key same eq show ?thesis by simp
qed

section \<open>Facts about the cache adapter\<close>

lemma redis_Get_log: "cache_log (snd (redis_Get key c)) = cache_log c @ [OpGet key]"
  by (simp add: redis_Get_def cache_call_def split: list.splits bool.splits option.splits prod.splits)

lemma redis_Get_entries: "entries (snd (redis_Get key c)) = entries c"
  by (simp add: redis_Get_def cache_call_def split: list.splits bool.splits option.splits prod.splits)

lemma redis_Set_log: "cache_log (snd (redis_Set key v t c)) = cache_log c @ [OpSet key v t]"
  by (simp add: redis_Set_def cache_call_def split: list.splits bool.splits option.splits prod.splits)

lemma redis_Set_entries:
  "entries (snd (redis_Set key v t c)) = entries c \<or>
   entries (snd (redis_Set key v t c)) = (key, v, t) # filter (\<lambda>e. fst e \<noteq> key) (entries c)"
  by (simp add: redis_Set_def cache_call_def split: list.splits bool.splits option.splits prod.splits)




section \<open>Reading one product (\<open>GetByID\<close>)\<close>

lemma GetByID_no_hit:
  assumes "\<forall>payload. fst (redis_Get (''product:'' @ uuid_String pid) (redis w)) = Inr payload
             \<longrightarrow> json_Unmarshal_product X payload = None"
  shows "fst (GetByID X pid w) = store_result pid (db w)"
  using assms
  by (auto simp: GetByID_def store_result_def Let_def
      split: prod.splits sum.splits option.splits db_error.splits)

lemma GetByID_cache_effect:
  "(cache_log (redis (snd (GetByID X pid w))) =
        cache_log (redis w) @ [OpGet (''product:'' @ uuid_String pid)]
      \<and> entries (redis (snd (GetByID X pid w))) = entries (redis w))
   \<or> (\<exists>p j. fst (db_First_by_id pid (db w)) = Inr p \<and> json_Marshal_product X p = Some j
         \<and> fst (GetByID X pid w) = Inr p
         \<and> cache_log (redis (snd (GetByID X pid w))) =
             cache_log (redis w) @ [OpGet (''product:'' @ uuid_String pid),
                                    OpSet (''product:'' @ uuid_String pid) j (10 * 60)]
         \<and> (entries (redis (snd (GetByID X pid w))) = entries (redis w)
            \<or> entries (redis (snd (GetByID X pid w))) =
                (''product:'' @ uuid_String pid, j, 10 * 60)
                # filter (\<lambda>e. fst e \<noteq> ''product:'' @ uuid_String pid) (entries (redis w))))"
proof -
  let ?key = "''product:'' @ uuid_String pid"
  obtain cached c1 where g: "redis_Get ?key (redis w) = (cached, c1)"
    by (cases "redis_Get ?key (redis w)")
  have c1_log: "cache_log c1 = cache_log (redis w) @ [OpGet ?key]"
    using redis_Get_log [of ?key "redis w"] g by simp
  have c1_ent: "entries c1 = entries (redis w)"
    using redis_Get_entries [of ?key "redis w"] g by simp
  show ?thesis
  proof (cases "case cached of Inr payload \<Rightarrow> json_Unmarshal_product X payload | Inl err \<Rightarrow> None")
    case (Some product)
    then show ?thesis using g c1_log c1_ent
      by (simp add: GetByID_def Let_def)
  next
    case None
    obtain r d1 where f: "db_First_by_id pid (db w) = (r, d1)"
      by (cases "db_First_by_id pid (db w)")
    show ?thesis
    proof (cases r)
      case (Inl err)
      then show ?thesis using None g f c1_log c1_ent
        by (simp add: GetByID_def Let_def)
    next
      case (Inr p)
      show ?thesis
      proof (cases "json_Marshal_product X p")
        case nomarshal: None
        then show ?thesis using None Inr g f c1_log c1_ent
          by (simp add: GetByID_def Let_def)
      next
        case (Some j)
        have l: "cache_log (snd (redis_Set ?key j (10 * Minute) c1)) =
                   cache_log (redis w) @ [OpGet ?key, OpSet ?key j (10 * 60)]"
          by (simp add: redis_Set_log c1_log Minute_def)
        have e: "entries (snd (redis_Set ?key j (10 * Minute) c1)) = entries (redis w) \<or>
                 entries (snd (redis_Set ?key j (10 * Minute) c1)) =
                   (?key, j, 10 * 60) # filter (\<lambda>e. fst e \<noteq> ?key) (entries (redis w))"
          using redis_Set_entries [of ?key j "10 * Minute" c1]
          by (simp add: c1_ent Minute_def)
        have res: "GetByID X pid w =
                    (Inr p, \<lparr>db = d1, redis = snd (redis_Set ?key j (10 * Minute) c1)\<rparr>)"
          using None Inr Some g f by (simp add: GetByID_def Let_def)
        show ?thesis
          apply (rule disjI2)
          apply (rule exI [of _ p], rule exI [of _ j])
          using f Inr Some l e res by simp
      qed
    qed
  qed
qed

lemma store_result_not_redis: "store_result pid d \<noteq> Inl (RedisError e)"
  by (simp add: store_result_def NewNotFoundError_def split: sum.splits db_error.splits)

lemma GetByID_never_redis_error: "fst (GetByID X pid w) \<noteq> Inl (RedisError e)"
  by (auto simp: GetByID_def NewNotFoundError_def Let_def
      split: prod.splits sum.splits option.splits)

lemma GetByID_empty_cache:
  "fst (GetByID X pid (w\<lparr>redis := \<lparr>entries = [], cache_faults = [], cache_log = l\<rparr>\<rparr>))
     = store_result pid (db w)"
  by (rule trans [OF GetByID_no_hit]) (simp_all add: redis_Get_def cache_call_def)

text \<open>
  C4. When the cache lookup of \<open>GetByID\<close> misses and the store has no row for the id,
  \<open>GetByID\<close> returns the not-found error and issues no command to the cache besides
  that lookup: no entry is written. In every run of \<open>GetByID\<close> the cache either sees
  only the lookup and keeps its entries, or the store returned a product, which is
  also the result, and the one further command is the write of that product's payload
  under its key with an expiry of ten minutes (which, when the write succeeds,
  replaces the entry of that key).
\<close>

theorem C4_not_found_is_not_cached:
  "(fst (redis_Get (''product:'' @ uuid_String pid) (redis w)) = Inl redis_Nil
      \<and> fst (db_First_by_id pid (db w)) = Inl ErrRecordNotFound
     \<longrightarrow> fst (GetByID X pid w) =
           Inl (NewNotFoundError ''Product not found'' (Some (GormError ErrRecordNotFound)))
         \<and> entries (redis (snd (GetByID X pid w))) = entries (redis w)
         \<and> cache_log (redis (snd (GetByID X pid w))) =
             cache_log (redis w) @ [OpGet (''product:'' @ uuid_String pid)])
   \<and> ((cache_log (redis (snd (GetByID X pid w))) =
          cache_log (redis w) @ [OpGet (''product:'' @ uuid_String pid)]
        \<and> entries (redis (snd (GetByID X pid w))) = entries (redis w))
      \<or> (\<exists>p j. fst (db_First_by_id pid (db w)) = Inr p \<and> json_Marshal_product X p = Some j
           \<and> fst (GetByID X pid w) = Inr p
           \<and> cache_log (redis (snd (GetByID X pid w))) =
               cache_log (redis w) @ [OpGet (''product:'' @ uuid_String pid),
                                      OpSet (''product:'' @ uuid_String pid) j (10 * 60)]
           \<and> (entries (redis (snd (GetByID X pid w))) = entries (redis w)
              \<or> entries (redis (snd (GetByID X pid w))) =
                  (''product:'' @ uuid_String pid, j, 10 * 60)
                  # filter (\<lambda>e. fst e \<noteq> ''product:'' @ uuid_String pid) (entries (redis w)))))"
proof (intro conjI impI)
  assume a: "fst (redis_Get (''product:'' @ uuid_String pid) (redis w)) = Inl redis_Nil
      \<and> fst (db_First_by_id pid (db w)) = Inl ErrRecordNotFound"
  then have nohit: "\<forall>payload. fst (redis_Get (''product:'' @ uuid_String pid) (redis w)) = Inr payload
             \<longrightarrow> json_Unmarshal_product X payload = None"
    by simp
  show "fst (GetByID X pid w) =
           Inl (NewNotFoundError ''Product not found'' (Some (GormError ErrRecordNotFound)))"
    using GetByID_no_hit [OF nohit] a by (simp add: store_result_def)
  from GetByID_cache_effect [of X pid w] a
  show "entries (redis (snd (GetByID X pid w))) = entries (redis w)"
    by auto
  from GetByID_cache_effect [of X pid w] a
  show "cache_log (redis (snd (GetByID X pid w))) =
             cache_log (redis w) @ [OpGet (''product:'' @ uuid_String pid)]"
    by auto
next
  show "(cache_log (redis (snd (GetByID X pid w))) =
          cache_log (redis w) @ [OpGet (''product:'' @ uuid_String pid)]
        \<and> entries (redis (snd (GetByID X pid w))) = entries (redis w))
      \<or> (\<exists>p j. fst (db_First_by_id pid (db w)) = Inr p \<and> json_Marshal_product X p = Some j
           \<and> fst (GetByID X pid w) = Inr p
           \<and> cache_log (redis (snd (GetByID X pid w))) =
               cache_log (redis w) @ [OpGet (''product:'' @ uuid_String pid),
                                      OpSet (''product:'' @ uuid_String pid) j (10 * 60)]
           \<and> (entries (redis (snd (GetByID X pid w))) = entries (redis w)
              \<or> entries (redis (snd (GetByID X pid w))) =
                  (''product:'' @ uuid_String pid, j, 10 * 60)
                  # filter (\<lambda>e. fst e \<noteq> ''product:'' @ uuid_String pid) (entries (redis w))))"
    by (rule GetByID_cache_effect)
qed

text \<open>Witness for C4: an id without a row, on an empty cache.\<close>

theorem C4_not_found_is_not_cached_witness:
  "fst (redis_Get (''product:'' @ uuid_String demo_other_id) (redis demo_world)) = Inl redis_Nil
   \<and> fst (db_First_by_id demo_other_id (db demo_world)) = Inl ErrRecordNotFound
   \<and> fst (GetByID demo_externals demo_other_id demo_world) =
       Inl (NewNotFoundError ''Product not found'' (Some (GormError ErrRecordNotFound)))
   \<and> entries (redis (snd (GetByID demo_externals demo_other_id demo_world))) = []
   \<and> cache_log (redis (snd (GetByID demo_externals demo_other_id demo_world))) =
       [OpGet ''product:22222222-2222-2222-2222-222222222222'']"
proof -
  have miss: "fst (redis_Get (''product:'' @ uuid_String demo_other_id) (redis demo_world))
                = Inl redis_Nil"
    by (simp add: demo_defs op_defs)
  have absent: "fst (db_First_by_id demo_other_id (db demo_world)) = Inl ErrRecordNotFound"
    by (simp add: demo_defs op_defs)
  have start: "entries (redis demo_world) = []" "cache_log (redis demo_world) = []"
    by (simp_all add: demo_defs)
  have key: "''product:'' @ uuid_String demo_other_id
               = ''product:22222222-2222-2222-2222-222222222222''"
    by (simp add: demo_defs)
  from C4_not_found_is_not_cached [of demo_other_id demo_world demo_externals] miss absent
  have "fst (GetByID demo_externals demo_other_id demo_world) =
          Inl (NewNotFoundError ''Product not found'' (Some (GormError ErrRecordNotFound)))
        \<and> entries (redis (snd (GetByID demo_externals demo_other_id demo_world)))
            = entries (redis demo_world)
        \<and> cache_log (redis (snd (GetByID demo_externals demo_other_id demo_world)))
            = cache_log (redis demo_world) @ [OpGet (''product:'' @ uuid_String demo_other_id)]"
    by blast
  with miss absent show ?thesis
    by (simp only: start key append_Nil simp_thms)
qed

text \<open>
  C8. When the cache lookup of \<open>GetByID\<close> fails (an absent key or any other error of
  the cache client) or yields a payload that does not decode, \<open>GetByID\<close> returns
  exactly what the store lookup gives, the same result as on an empty, working cache.
  No run of \<open>GetByID\<close> returns an error of the cache client.
\<close>

theorem C8_cache_read_failure_falls_through:
  "((\<exists>e. fst (redis_Get (''product:'' @ uuid_String pid) (redis w)) = Inl e)
     \<or> (\<exists>payload. fst (redis_Get (''product:'' @ uuid_String pid) (redis w)) = Inr payload
           \<and> json_Unmarshal_product X payload = None)
    \<longrightarrow> fst (GetByID X pid w) = store_result pid (db w)
      \<and> fst (GetByID X pid w) =
          fst (GetByID X pid
                (w\<lparr>redis := \<lparr>entries = [], cache_faults = [], cache_log = cache_log (redis w)\<rparr>\<rparr>)))
   \<and> (\<forall>e. fst (GetByID X pid w) \<noteq> Inl (RedisError e))"
proof (intro conjI impI allI)
  assume a: "(\<exists>e. fst (redis_Get (''product:'' @ uuid_String pid) (redis w)) = Inl e)
     \<or> (\<exists>payload. fst (redis_Get (''product:'' @ uuid_String pid) (redis w)) = Inr payload
           \<and> json_Unmarshal_product X payload = None)"
  then have nohit: "\<forall>payload. fst (redis_Get (''product:'' @ uuid_String pid) (redis w)) = Inr payload
             \<longrightarrow> json_Unmarshal_product X payload = None"
    by auto
  show s: "fst (GetByID X pid w) = store_result pid (db w)"
    by (rule GetByID_no_hit [OF nohit])
  show "fst (GetByID X pid w) =
          fst (GetByID X pid
                (w\<lparr>redis := \<lparr>entries = [], cache_faults = [], cache_log = cache_log (redis w)\<rparr>\<rparr>))"
    by (simp only: s GetByID_empty_cache)
next
  fix e show "fst (GetByID X pid w) \<noteq> Inl (RedisError e)"
    by (rule GetByID_never_redis_error)
qed

text \<open>
  Witness for C8: a cached payload that does not decode, and a cache whose commands
  fail; both reads return the stored product.
\<close>

theorem C8_cache_read_failure_falls_through_witness:
  "fst (redis_Get (''product:'' @ uuid_String demo_id) (redis demo_corrupt_world)) = Inr ''{produ''
   \<and> json_Unmarshal_product demo_externals ''{produ'' = None
   \<and> fst (GetByID demo_externals demo_id demo_corrupt_world) = Inr demo_old
   \<and> fst (redis_Get (''product:'' @ uuid_String demo_id) (redis demo_cache_down_world))
       = Inl CacheFailure
   \<and> fst (GetByID demo_externals demo_id demo_cache_down_world) = Inr demo_old"
proof -
  have got: "fst (redis_Get (''product:'' @ uuid_String demo_id) (redis demo_corrupt_world))
               = Inr ''{produ''"
    by (simp add: demo_defs op_defs)
  have undecoded: "json_Unmarshal_product demo_externals ''{produ'' = None"
    by (simp add: demo_defs)
  have failed: "fst (redis_Get (''product:'' @ uuid_String demo_id) (redis demo_cache_down_world))
                  = Inl CacheFailure"
    by (simp add: demo_defs op_defs)
  have stored1: "store_result demo_id (db demo_corrupt_world) = Inr demo_old"
    by (simp add: store_result_def demo_defs op_defs)
  have stored2: "store_result demo_id (db demo_cache_down_world) = Inr demo_old"
    by (simp add: store_result_def demo_defs op_defs)
  from C8_cache_read_failure_falls_through [of demo_id demo_corrupt_world demo_externals]
       got undecoded
  have r1: "fst (GetByID demo_externals demo_id demo_corrupt_world)
              = store_result demo_id (db demo_corrupt_world)"
    by blast
  from C8_cache_read_failure_falls_through [of demo_id demo_cache_down_world demo_externals]
       failed
  have r2: "fst (GetByID demo_externals demo_id demo_cache_down_world)
              = store_result demo_id (db demo_cache_down_world)"
    by blast
  from got undecoded failed r1 r2 show ?thesis
    by (simp only: stored1 stored2 simp_thms)
qed

section \<open>Update, then read\<close>













section \<open>Mutations that fail in the store\<close>

text \<open>
  C7. When the \<open>Save\<close> inside \<open>Update\<close> fails, \<open>Update\<close> returns the store's error
  (wrapped with its message) and leaves the cache as it was: entries, pending command
  outcomes and the log of commands issued are unchanged, so no cache command was
  issued. The same holds for \<open>Delete\<close> when its delete statement fails.
\<close>

theorem C7_store_failure_leaves_cache:
  "(fst (db_Save product (db w)) = Inl err \<longrightarrow>
      fst (fst (Update product w)) = Some (Errorf ''failed to update product'' (GormError err))
      \<and> redis (snd (Update product w)) = redis w)
   \<and> (fst (db_Delete pid (db w)) = Some err \<longrightarrow>
      fst (Delete pid w) = Some (Errorf ''failed to delete product'' (GormError err))
      \<and> redis (snd (Delete pid w)) = redis w)"
  by (auto simp: Update_def Delete_def split: prod.splits sum.splits option.splits)

text \<open>Witness for C7: a store whose next statement fails, under a filled cache.\<close>

theorem C7_store_failure_leaves_cache_witness:
  "fst (db_Save demo_new (db demo_store_down_world)) = Inl (DbFailure ''connection refused'')
   \<and> fst (fst (Update demo_new demo_store_down_world)) =
       Some (Errorf ''failed to update product'' (GormError (DbFailure ''connection refused'')))
   \<and> redis (snd (Update demo_new demo_store_down_world)) = demo_warm_cache
   \<and> fst (db_Delete demo_id (db demo_store_down_world)) = Some (DbFailure ''connection refused'')
   \<and> fst (Delete demo_id demo_store_down_world) =
       Some (Errorf ''failed to delete product'' (GormError (DbFailure ''connection refused'')))
   \<and> redis (snd (Delete demo_id demo_store_down_world)) = demo_warm_cache"
proof -
  have save: "fst (db_Save demo_new (db demo_store_down_world))
                = Inl (DbFailure ''connection refused'')"
    by (simp add: demo_store_down_world_def demo_db_def db_Save_def db_call_def)
  have del: "fst (db_Delete demo_id (db demo_store_down_world))
               = Some (DbFailure ''connection refused'')"
    by (simp add: demo_store_down_world_def demo_db_def db_Delete_def db_call_def)
  have cache: "redis demo_store_down_world = demo_warm_cache"
    by (simp add: demo_store_down_world_def)
  from C7_store_failure_leaves_cache
         [of demo_new demo_store_down_world "DbFailure ''connection refused''" demo_id]
       save del
  show ?thesis
    by (simp only: cache simp_thms)
qed

section \<open>Reading by SKU (\<open>GetBySKU\<close>)\<close>

text \<open>
  C10. \<open>GetBySKU\<close> leaves the cache as it was (entries, pending command outcomes and
  the log of commands: it issues no cache command), and its result and its effect on
  the store are the same whatever the cache holds.
\<close>

theorem C10_GetBySKU_bypasses_cache:
  "redis (snd (GetBySKU sku w)) = redis w
   \<and> fst (GetBySKU sku (w\<lparr>redis := c\<rparr>)) = fst (GetBySKU sku w)
   \<and> db (snd (GetBySKU sku (w\<lparr>redis := c\<rparr>))) = db (snd (GetBySKU sku w))"
  by (simp add: GetBySKU_def split: prod.splits sum.splits)

text \<open>Witness for C10: the stored product read by its SKU under a filled cache.\<close>

theorem C10_GetBySKU_bypasses_cache_witness:
  "redis (snd (GetBySKU ''X1'' demo_warm_world)) = demo_warm_cache
   \<and> fst (GetBySKU ''X1'' demo_world) = fst (GetBySKU ''X1'' demo_warm_world)
   \<and> fst (GetBySKU ''X1'' demo_warm_world) = Inr demo_old"
proof -
  have w: "demo_world\<lparr>redis := demo_warm_cache\<rparr> = demo_warm_world"
    by (simp add: demo_world_def demo_warm_world_def)
  have c: "redis demo_warm_world = demo_warm_cache"
    by (simp add: demo_warm_world_def)
  have r: "fst (GetBySKU ''X1'' demo_world) = Inr demo_old"
    by (simp add: GetBySKU_def demo_defs op_defs)
  from C10_GetBySKU_bypasses_cache [of "''X1''" demo_warm_world]
       C10_GetBySKU_bypasses_cache [of "''X1''" demo_world demo_warm_cache]
  show ?thesis
    by (simp only: w c r simp_thms)
qed

section \<open>Collection reads (\<open>List\<close>, \<open>ListProducts\<close>, \<open>SearchProducts\<close>)\<close>

lemma db_Count_log: "db_log (snd (db_Count X q d)) = db_log d @ [DbCount q]"
  by (simp add: db_Count_def db_call_def split: list.splits option.splits)

lemma db_Find_log: "db_log (snd (db_Find X q d)) = db_log d @ [DbFind q]"
  by (simp add: db_Find_def db_call_def split: list.splits option.splits)

lemma List_uncacheable_unfold:
  assumes "buildCacheKey f = []"
  shows "List X f w =
     (case db_Count X (apply_filters X f) (db w) of
        (Inl err, d1) \<Rightarrow>
          (Inl (Errorf ''failed to count products'' (GormError err)), \<lparr>db = d1, redis = redis w\<rparr>)
      | (Inr n, d1) \<Rightarrow>
          (case db_Find X (apply_pagination f (apply_sorting X f (apply_filters X f))) d1 of
             (Inl err, d2) \<Rightarrow>
               (Inl (Errorf ''failed to list products'' (GormError err)),
                \<lparr>db = d2, redis = redis w\<rparr>)
           | (Inr ps, d2) \<Rightarrow> (Inr (ps, n), \<lparr>db = d2, redis = redis w\<rparr>)))"
  unfolding List_def Let_def assms by (simp split: prod.splits sum.splits)


lemma List_uncacheable:
  assumes "buildCacheKey f = []"
  shows "redis (snd (List X f w)) = redis w"
  by (simp add: List_uncacheable_unfold [OF assms] split: prod.splits sum.splits)

lemma List_uncacheable_queries:
  assumes "buildCacheKey f = []"
  shows "\<exists>q rest. db_log (db (snd (List X f w))) = db_log (db w) @ DbCount q # rest"
proof -
  let ?q0 = "apply_filters X f"
  let ?q1 = "apply_pagination f (apply_sorting X f ?q0)"
  obtain r d1 where c: "db_Count X ?q0 (db w) = (r, d1)"
    by (cases "db_Count X ?q0 (db w)")
  have l1: "db_log d1 = db_log (db w) @ [DbCount ?q0]"
    using db_Count_log [of X ?q0 "db w"] c by simp
  show ?thesis
  proof (cases r)
    case (Inl err)
    then show ?thesis using c l1
      by (simp add: List_uncacheable_unfold [OF assms])
  next
    case (Inr n)
    obtain r2 d2 where fd: "db_Find X ?q1 d1 = (r2, d2)"
      by (cases "db_Find X ?q1 d1")
    have l2: "db_log d2 = db_log (db w) @ [DbCount ?q0, DbFind ?q1]"
      using db_Find_log [of X ?q1 d1] fd l1 by simp
    have "db (snd (List X f w)) = d2"
      using c Inr fd by (cases r2) (simp_all add: List_uncacheable_unfold [OF assms])
    then show ?thesis using l2 by simp
  qed
qed

lemma ListProducts_normalized:
  "ListProducts X f w =
     (case List X (normalize_defaults f) w of
        (Inl err, w1) \<Rightarrow> (Inl (NewInternalError ''Failed to list products'' (Some err)), w1)
      | (Inr (ps, n), w1) \<Rightarrow>
          (Inr \<lparr>Products = ps, Total = n,
                pl_Limit = Limit (normalize_defaults f),
                pl_Offset = Offset f,
                HasMore = (wrap_int64 (Offset f + Limit (normalize_defaults f)) < n)\<rparr>,
           w1))"
proof -
  define g where "g = (let f1 = (if Limit f \<le> 0 then f\<lparr>Limit := 20\<rparr> else f);
          f2 = (if Limit f1 > 100 then f1\<lparr>Limit := 100\<rparr> else f1);
          f3 = (if SortBy f2 = [] then f2\<lparr>SortBy := ''created_at''\<rparr> else f2);
          f4 = (if SortOrder f3 = [] then f3\<lparr>SortOrder := ''desc''\<rparr> else f3)
      in f4)"
  have eq: "g = normalize_defaults f"
    by (simp add: g_def normalize_defaults_def Let_def)
  have off: "Offset (normalize_defaults f) = Offset f"
    by (simp add: normalize_defaults_def)
  have "ListProducts X f w =
     (case List X g w of
        (Inl err, w1) \<Rightarrow> (Inl (NewInternalError ''Failed to list products'' (Some err)), w1)
      | (Inr (ps, n), w1) \<Rightarrow>
          (Inr \<lparr>Products = ps, Total = n, pl_Limit = Limit g, pl_Offset = Offset g,
                HasMore = (wrap_int64 (Offset g + Limit g) < n)\<rparr>,
           w1))"
    by (simp only: ListProducts_def g_def Let_def)
  then show ?thesis
    by (simp only: eq off)
qed


lemma buildCacheKey_search: "q \<noteq> [] \<Longrightarrow> buildCacheKey (normalize_defaults (f\<lparr>Search := q\<rparr>)) = []"
  by (simp add: buildCacheKey_def normalize_defaults_def)

lemma ListProducts_redis: "redis (snd (ListProducts X f w)) = redis (snd (List X (normalize_defaults f) w))"
  by (simp add: ListProducts_normalized split: prod.splits sum.splits)

lemma ListProducts_db: "db (snd (ListProducts X f w)) = db (snd (List X (normalize_defaults f) w))"
  by (simp add: ListProducts_normalized split: prod.splits sum.splits)

lemma List_db_cases:
  "db (snd (List X f w)) = db w
   \<or> db (snd (List X f w)) = snd (db_Count X (apply_filters X f) (db w))
   \<or> db (snd (List X f w)) =
       snd (db_Find X (apply_pagination f (apply_sorting X f (apply_filters X f)))
              (snd (db_Count X (apply_filters X f) (db w))))"
proof -
  let ?q0 = "apply_filters X f"
  let ?q1 = "apply_pagination f (apply_sorting X f ?q0)"
  define probe where "probe =
     (if buildCacheKey f \<noteq> [] then
        (case redis_Get (buildCacheKey f) (redis w) of
           (Inr cached, c1) \<Rightarrow> (json_Unmarshal_list X cached, c1)
         | (Inl err, c1) \<Rightarrow> (None, c1))
      else (None, redis w))"
  obtain hit c1 where pr: "probe = (hit, c1)"
    by (cases probe)
  obtain r d1 where c: "db_Count X ?q0 (db w) = (r, d1)"
    by (cases "db_Count X ?q0 (db w)")
  obtain r2 d2 where fd: "db_Find X ?q1 d1 = (r2, d2)"
    by (cases "db_Find X ?q1 d1")
  have unfold: "List X f w =
     (case probe of
        (Some result, c1) \<Rightarrow> (Inr result, w\<lparr>redis := c1\<rparr>)
      | (None, c1) \<Rightarrow>
          (case db_Count X ?q0 (db w) of
             (Inl err, d1) \<Rightarrow>
               (Inl (Errorf ''failed to count products'' (GormError err)),
                \<lparr>db = d1, redis = c1\<rparr>)
           | (Inr total_n, d1) \<Rightarrow>
               (case db_Find X ?q1 d1 of
                  (Inl err, d2) \<Rightarrow>
                    (Inl (Errorf ''failed to list products'' (GormError err)),
                     \<lparr>db = d2, redis = c1\<rparr>)
                | (Inr products, d2) \<Rightarrow>
                    (let c2 = (if buildCacheKey f \<noteq> [] then
                                 (case json_Marshal_list X (products, total_n) of
                                    Some resultJSON \<Rightarrow>
                                      snd (redis_Set (buildCacheKey f) resultJSON (5 * Minute) c1)
                                  | None \<Rightarrow> c1)
                               else c1)
                     in (Inr (products, total_n), \<lparr>db = d2, redis = c2\<rparr>)))))"
    by (simp only: List_def Let_def probe_def)
  show ?thesis
  proof (cases hit)
    case (Some result)
    then show ?thesis by (simp add: unfold pr)
  next
    case None
    show ?thesis
    proof (cases r)
      case (Inl err)
      then show ?thesis using None by (simp add: unfold pr c)
    next
      case (Inr n)
      then show ?thesis using None by (cases r2) (simp_all add: unfold pr c fd Let_def)
    qed
  qed
qed

lemma apply_pagination_clauses:
  "q_limit (apply_pagination f (apply_sorting X f (apply_filters X f))) =
     (if Limit f > 0 then Some (Limit f) else None)"
  "q_offset (apply_pagination f (apply_sorting X f (apply_filters X f))) =
     (if Offset f > 0 then Some (Offset f) else None)"
  "q_order (apply_pagination f (apply_sorting X f (apply_filters X f))) =
     Some (SortBy f @ '' '' @ strings_ToUpper X (SortOrder f))"
  by (simp_all add: apply_pagination_def apply_sorting_def apply_filters_def Let_def)

lemma List_find_clauses:
  "\<exists>new. db_log (db (snd (List X f w))) = db_log (db w) @ new
     \<and> (\<forall>q. DbFind q \<in> set new \<longrightarrow>
           q_limit q = (if Limit f > 0 then Some (Limit f) else None)
         \<and> q_offset q = (if Offset f > 0 then Some (Offset f) else None)
         \<and> q_order q = Some (SortBy f @ '' '' @ strings_ToUpper X (SortOrder f)))"
proof -
  let ?q0 = "apply_filters X f"
  let ?q1 = "apply_pagination f (apply_sorting X f ?q0)"
  from List_db_cases [of X f w]
  consider (hit) "db (snd (List X f w)) = db w"
    | (count) "db (snd (List X f w)) = snd (db_Count X ?q0 (db w))"
    | (find) "db (snd (List X f w)) = snd (db_Find X ?q1 (snd (db_Count X ?q0 (db w))))"
    by blast
  then show ?thesis
  proof cases
    case hit
    then show ?thesis by (intro exI [of _ "[]"]) simp
  next
    case count
    then show ?thesis by (intro exI [of _ "[DbCount ?q0]"]) (simp add: db_Count_log)
  next
    case find
    then show ?thesis
      by (intro exI [of _ "[DbCount ?q0, DbFind ?q1]"])
         (simp add: db_Count_log db_Find_log apply_pagination_clauses)
  qed
qed

lemma normalize_defaults_fields:
  "Limit (normalize_defaults f) = (if Limit f \<le> 0 then 20 else if Limit f > 100 then 100 else Limit f)"
  "Offset (normalize_defaults f) = Offset f"
  "SortBy (normalize_defaults f) = (if SortBy f = [] then ''created_at'' else SortBy f)"
  "SortOrder (normalize_defaults f) = (if SortOrder f = [] then ''desc'' else SortOrder f)"
  "0 < Limit (normalize_defaults f)"
  by (simp_all add: normalize_defaults_def)

text \<open>
  C6, with the offset clause as the repository adds it. \<open>ListProducts\<close> is the
  repository's \<open>List\<close> run on the filter set with the
  defaults applied: a limit of zero or below replaced by 20, a limit above 100 by 100,
  an unset sort field by the creation time, an unset sort direction by descending; the
  offset is passed as given. A returned list reports that limit and the given offset.
  Every page query that the call sends to the store carries that limit, is ordered by
  the normalized sort field and direction, and carries the given offset when it is
  positive (the repository adds no offset clause otherwise).
\<close>

theorem C6_ListProducts_defaults:
  "ListProducts X f w =
     (case List X (normalize_defaults f) w of
        (Inl err, w1) \<Rightarrow> (Inl (NewInternalError ''Failed to list products'' (Some err)), w1)
      | (Inr (ps, n), w1) \<Rightarrow>
          (Inr \<lparr>Products = ps, Total = n,
                pl_Limit = Limit (normalize_defaults f),
                pl_Offset = Offset f,
                HasMore = (wrap_int64 (Offset f + Limit (normalize_defaults f)) < n)\<rparr>,
           w1))
   \<and> (\<forall>l. fst (ListProducts X f w) = Inr l \<longrightarrow>
          pl_Limit l = (if Limit f \<le> 0 then 20 else if Limit f > 100 then 100 else Limit f)
        \<and> pl_Offset l = Offset f)
   \<and> (\<exists>new. db_log (db (snd (ListProducts X f w))) = db_log (db w) @ new
        \<and> (\<forall>q. DbFind q \<in> set new \<longrightarrow>
              q_limit q = Some (if Limit f \<le> 0 then 20 else if Limit f > 100 then 100 else Limit f)
            \<and> q_offset q = (if Offset f > 0 then Some (Offset f) else None)
            \<and> q_order q = Some ((if SortBy f = [] then ''created_at'' else SortBy f) @ '' ''
                                  @ strings_ToUpper X (if SortOrder f = [] then ''desc'' else SortOrder f))))"
proof (intro conjI allI impI)
  show "ListProducts X f w =
     (case List X (normalize_defaults f) w of
        (Inl err, w1) \<Rightarrow> (Inl (NewInternalError ''Failed to list products'' (Some err)), w1)
      | (Inr (ps, n), w1) \<Rightarrow>
          (Inr \<lparr>Products = ps, Total = n,
                pl_Limit = Limit (normalize_defaults f),
                pl_Offset = Offset f,
                HasMore = (wrap_int64 (Offset f + Limit (normalize_defaults f)) < n)\<rparr>,
           w1))"
    by (rule ListProducts_normalized)
next
  fix l assume "fst (ListProducts X f w) = Inr l"
  then have "pl_Limit l = Limit (normalize_defaults f) \<and> pl_Offset l = Offset f"
    by (auto simp: ListProducts_normalized split: prod.splits sum.splits)
  then show "pl_Limit l = (if Limit f \<le> 0 then 20 else if Limit f > 100 then 100 else Limit f)"
    and "pl_Offset l = Offset f"
    by (simp_all add: normalize_defaults_fields(1))
next
  from List_find_clauses [of X "normalize_defaults f" w]
  show "\<exists>new. db_log (db (snd (ListProducts X f w))) = db_log (db w) @ new
        \<and> (\<forall>q. DbFind q \<in> set new \<longrightarrow>
              q_limit q = Some (if Limit f \<le> 0 then 20 else if Limit f > 100 then 100 else Limit f)
            \<and> q_offset q = (if Offset f > 0 then Some (Offset f) else None)
            \<and> q_order q = Some ((if SortBy f = [] then ''created_at'' else SortBy f) @ '' ''
                                  @ strings_ToUpper X (if SortOrder f = [] then ''desc'' else SortOrder f)))"
    unfolding ListProducts_db normalize_defaults_fields(2,3,4)
    using normalize_defaults_fields(1,5) [of f]
    by (simp only: if_True)
qed

text \<open>
  Witness for C6: a limit of 500 and no sort settings, on the stored catalogue.
\<close>

theorem C6_ListProducts_defaults_witness:
  "fst (ListProducts demo_externals (demo_filters\<lparr>Limit := 500\<rparr>) demo_world) =
     Inr \<lparr>Products = [demo_old], Total = 1, pl_Limit = 100, pl_Offset = 0, HasMore = False\<rparr>
   \<and> pl_Limit \<lparr>Products = [demo_old], Total = 1, pl_Limit = 100, pl_Offset = 0, HasMore = False\<rparr>
       = (if Limit (demo_filters\<lparr>Limit := 500\<rparr>) \<le> 0 then 20
          else if Limit (demo_filters\<lparr>Limit := 500\<rparr>) > 100 then 100
          else Limit (demo_filters\<lparr>Limit := 500\<rparr>))
   \<and> db_log (db (snd (ListProducts demo_externals (demo_filters\<lparr>Limit := 500\<rparr>) demo_world)))
       = [DbCount demo_count_query, DbFind demo_page_query]
   \<and> q_limit demo_page_query = Some 100
   \<and> q_offset demo_page_query = None
   \<and> q_order demo_page_query = Some ''created_at DESC''"
proof -
  let ?f = "demo_filters\<lparr>Limit := 500\<rparr>"
  have run: "ListProducts demo_externals ?f demo_world =
     (Inr \<lparr>Products = [demo_old], Total = 1, pl_Limit = 100, pl_Offset = 0, HasMore = False\<rparr>,
      \<lparr>db = demo_db\<lparr>db_log := [DbCount demo_count_query, DbFind demo_page_query]\<rparr>,
       redis = \<lparr>entries = [(''products:list:limit_100:offset_0:sort_created_at_desc'',
                             ''{products: [X1 at price 10.0], total: 1}'', 300)],
                cache_faults = [],
                cache_log = [OpGet ''products:list:limit_100:offset_0:sort_created_at_desc'',
                             OpSet ''products:list:limit_100:offset_0:sort_created_at_desc''
                                   ''{products: [X1 at price 10.0], total: 1}'' 300]\<rparr>\<rparr>)"
    by (simp add: ListProducts_def List_def apply_filters_def apply_sorting_def
          apply_pagination_def wrap_int64_def Let_def demo_defs op_defs key_defs
          demo_count_query_def demo_page_query_def)
  have before: "db_log (db demo_world) = []"
    by (simp add: demo_defs)
  have fields: "Limit ?f = 500" "Offset ?f = 0" "SortBy ?f = []" "SortOrder ?f = []"
    by (simp_all add: demo_filters_def)
  note c6 = C6_ListProducts_defaults [of demo_externals ?f demo_world]
  from c6 run
  have reported: "pl_Limit \<lparr>Products = [demo_old], Total = 1, pl_Limit = 100, pl_Offset = 0,
                  HasMore = False\<rparr>
       = (if Limit ?f \<le> 0 then 20 else if Limit ?f > 100 then 100 else Limit ?f)"
    by simp
  from c6 obtain new where
    new: "db_log (db (snd (ListProducts demo_externals ?f demo_world))) = db_log (db demo_world) @ new"
    and clauses: "\<forall>q. DbFind q \<in> set new \<longrightarrow>
           q_limit q = Some (if Limit ?f \<le> 0 then 20 else if Limit ?f > 100 then 100 else Limit ?f)
         \<and> q_offset q = (if Offset ?f > 0 then Some (Offset ?f) else None)
         \<and> q_order q = Some ((if SortBy ?f = [] then ''created_at'' else SortBy ?f) @ '' ''
                               @ strings_ToUpper demo_externals
                                   (if SortOrder ?f = [] then ''desc'' else SortOrder ?f))"
    by blast
  from new have new_eq: "new = [DbCount demo_count_query, DbFind demo_page_query]"
    by (simp add: run before)
  then have "DbFind demo_page_query \<in> set new"
    by simp
  with clauses
  have page: "q_limit demo_page_query = Some 100 \<and> q_offset demo_page_query = None
              \<and> q_order demo_page_query = Some ''created_at DESC''"
    by (simp add: fields demo_externals_def)
  have log: "db_log (db (snd (ListProducts demo_externals ?f demo_world)))
               = [DbCount demo_count_query, DbFind demo_page_query]"
    by (simp add: run)
  from run reported log page show ?thesis
    by simp
qed

text \<open>
  C6 fails for an offset that is not positive. With the offset -5 and no other
  setting, \<open>ListProducts\<close> reports the offset -5 and keys the cache entry with it,
  but the page statement sent to the store has no offset clause: the repository adds
  the clause only for a positive offset.
\<close>

theorem C6_negative_offset_not_sent:
  "fst (ListProducts demo_externals (demo_filters\<lparr>Offset := - 5\<rparr>) demo_world) =
     Inr \<lparr>Products = [demo_old], Total = 1, pl_Limit = 20, pl_Offset = - 5, HasMore = False\<rparr>
   \<and> db_log (db (snd (ListProducts demo_externals (demo_filters\<lparr>Offset := - 5\<rparr>) demo_world)))
       = [DbCount demo_count_query, DbFind demo_first_page_query]
   \<and> q_offset demo_first_page_query = None
   \<and> q_limit demo_first_page_query = Some 20
   \<and> cache_log (redis (snd (ListProducts demo_externals (demo_filters\<lparr>Offset := - 5\<rparr>)
                               demo_world)))
       = [OpGet ''products:list:limit_20:offset_-5:sort_created_at_desc'',
          OpSet ''products:list:limit_20:offset_-5:sort_created_at_desc''
                ''{products: [X1 at price 10.0], total: 1}'' 300]"
proof -
  have run: "ListProducts demo_externals (demo_filters\<lparr>Offset := - 5\<rparr>) demo_world =
     (Inr \<lparr>Products = [demo_old], Total = 1, pl_Limit = 20, pl_Offset = - 5, HasMore = False\<rparr>,
      \<lparr>db = demo_db\<lparr>db_log := [DbCount demo_count_query, DbFind demo_first_page_query]\<rparr>,
       redis = \<lparr>entries = [(''products:list:limit_20:offset_-5:sort_created_at_desc'',
                             ''{products: [X1 at price 10.0], total: 1}'', 300)],
                cache_faults = [],
                cache_log = [OpGet ''products:list:limit_20:offset_-5:sort_created_at_desc'',
                             OpSet ''products:list:limit_20:offset_-5:sort_created_at_desc''
                                   ''{products: [X1 at price 10.0], total: 1}'' 300]\<rparr>\<rparr>)"
    by (simp add: ListProducts_def List_def apply_filters_def apply_sorting_def
          apply_pagination_def wrap_int64_def Let_def demo_defs op_defs key_defs
          demo_count_query_def demo_first_page_query_def)
  have clauses: "q_offset demo_first_page_query = None"
    "q_limit demo_first_page_query = Some 20"
    by (simp_all add: demo_first_page_query_def demo_count_query_def)
  show ?thesis
    by (simp add: run clauses)
qed

text \<open>
  C5, for non-empty terms. For every non-empty search term, \<open>SearchProducts\<close> is \<open>ListProducts\<close>
  on the filter set with the term as its search field; the call leaves the cache as it
  was (entries, pending command outcomes and the log of commands: it issues no cache
  command, neither a read nor a write) and queries the store.
\<close>

theorem C5_search_bypasses_cache:
  "query \<noteq> [] \<longrightarrow>
     SearchProducts X query f w = ListProducts X (f\<lparr>Search := query\<rparr>) w
     \<and> redis (snd (SearchProducts X query f w)) = redis w
     \<and> (\<exists>q rest. db_log (db (snd (SearchProducts X query f w))) = db_log (db w) @ DbCount q # rest)"
proof (intro impI conjI)
  assume ne: "query \<noteq> []"
  then show s: "SearchProducts X query f w = ListProducts X (f\<lparr>Search := query\<rparr>) w"
    by (simp add: SearchProducts_def)
  from buildCacheKey_search [OF ne]
  have k: "buildCacheKey (normalize_defaults (f\<lparr>Search := query\<rparr>)) = []" .
  show "redis (snd (SearchProducts X query f w)) = redis w"
    by (simp only: s ListProducts_redis List_uncacheable [OF k])
  show "\<exists>q rest. db_log (db (snd (SearchProducts X query f w))) = db_log (db w) @ DbCount q # rest"
    by (simp only: s ListProducts_db List_uncacheable_queries [OF k])
qed

text \<open>Witness for C5: a search for a term under a filled cache.\<close>

theorem C5_search_bypasses_cache_witness:
  "SearchProducts demo_externals ''wireless'' demo_filters demo_warm_world =
     ListProducts demo_externals (demo_filters\<lparr>Search := ''wireless''\<rparr>) demo_warm_world
   \<and> redis (snd (SearchProducts demo_externals ''wireless'' demo_filters demo_warm_world))
       = demo_warm_cache"
proof -
  have ne: "''wireless'' \<noteq> []" by simp
  have c: "redis demo_warm_world = demo_warm_cache"
    by (simp add: demo_warm_world_def)
  from C5_search_bypasses_cache [of "''wireless''" demo_externals demo_filters demo_warm_world] ne
  have same: "SearchProducts demo_externals ''wireless'' demo_filters demo_warm_world =
                ListProducts demo_externals (demo_filters\<lparr>Search := ''wireless''\<rparr>) demo_warm_world"
    and kept: "redis (snd (SearchProducts demo_externals ''wireless'' demo_filters demo_warm_world))
                = redis demo_warm_world"
    by blast+
  show ?thesis
    by (intro conjI) (rule same, simp only: kept c)
qed

text \<open>
  C5 fails for the empty term. With the empty term \<open>SearchProducts\<close> runs
  \<open>ListProducts\<close> on the filter set as it is; for a filter set without search term and
  price bounds the call reads the cache and writes the collection entry, and the same
  call again is answered from that entry without a statement to the store.
\<close>

theorem C5_empty_term_is_cached:
  "redis demo_world = \<lparr>entries = [], cache_faults = [], cache_log = []\<rparr>
   \<and> cache_log (redis (snd (SearchProducts demo_externals [] demo_filters demo_world))) =
     [OpGet demo_list_key,
      OpSet demo_list_key ''{products: [X1 at price 10.0], total: 1}'' 300]
   \<and> entries (redis (snd (SearchProducts demo_externals [] demo_filters demo_world))) =
       [(demo_list_key, ''{products: [X1 at price 10.0], total: 1}'', 300)]
   \<and> db_log (db (snd (SearchProducts demo_externals [] demo_filters
                        (snd (SearchProducts demo_externals [] demo_filters demo_world))))) =
       db_log (db (snd (SearchProducts demo_externals [] demo_filters demo_world)))
   \<and> cache_log (redis (snd (SearchProducts demo_externals [] demo_filters
                        (snd (SearchProducts demo_externals [] demo_filters demo_world))))) =
       [OpGet demo_list_key,
        OpSet demo_list_key ''{products: [X1 at price 10.0], total: 1}'' 300,
        OpGet demo_list_key]"
proof -
  define w1 where "w1 = snd (SearchProducts demo_externals [] demo_filters demo_world)"
  have first: "w1 =
     \<lparr>db = demo_db\<lparr>db_log :=
               [DbCount (apply_filters demo_externals
                           (demo_filters\<lparr>Limit := 20, SortBy := ''created_at'',
                                          SortOrder := ''desc''\<rparr>)),
                DbFind (apply_pagination
                          (demo_filters\<lparr>Limit := 20, SortBy := ''created_at'',
                                         SortOrder := ''desc''\<rparr>)
                          (apply_sorting demo_externals
                             (demo_filters\<lparr>Limit := 20, SortBy := ''created_at'',
                                            SortOrder := ''desc''\<rparr>)
                             (apply_filters demo_externals
                                (demo_filters\<lparr>Limit := 20, SortBy := ''created_at'',
                                               SortOrder := ''desc''\<rparr>))))]\<rparr>,
      redis = \<lparr>entries = [(demo_list_key, ''{products: [X1 at price 10.0], total: 1}'', 300)],
               cache_faults = [],
               cache_log = [OpGet demo_list_key,
                            OpSet demo_list_key ''{products: [X1 at price 10.0], total: 1}'' 300]\<rparr>\<rparr>"
    by (simp add: w1_def SearchProducts_def ListProducts_def List_def apply_filters_def
          apply_sorting_def apply_pagination_def wrap_int64_def Let_def demo_defs op_defs key_defs)
  have second: "snd (SearchProducts demo_externals [] demo_filters w1) =
     w1\<lparr>redis := (redis w1)\<lparr>cache_log :=
          [OpGet demo_list_key,
           OpSet demo_list_key ''{products: [X1 at price 10.0], total: 1}'' 300,
           OpGet demo_list_key]\<rparr>\<rparr>"
    unfolding first
    by (simp add: SearchProducts_def ListProducts_def List_def apply_filters_def
          apply_sorting_def apply_pagination_def wrap_int64_def Let_def demo_defs op_defs key_defs)
  have start: "redis demo_world = \<lparr>entries = [], cache_faults = [], cache_log = []\<rparr>"
    by (simp add: demo_world_def)
  show ?thesis
    unfolding w1_def [symmetric] second
    by (simp add: first start)
qed

section \<open>The invalidation sweep (\<open>InvalidateProductCache\<close>)\<close>

text \<open>
  C1 on a concrete state. The cache holds the entry of another product and one
  collection entry. \<open>CreateProduct\<close>, \<open>UpdateProduct\<close> and \<open>DeleteProduct\<close> each succeed in
  the store and run the sweep; the sweep finds a key matching \<open>product:*\<close>, deletes
  it and returns, and the collection entry is still in the cache afterwards.
\<close>

theorem C1_sweep_skips_collection_keys:
  "fst (CreateProduct demo_externals demo_create_request demo_warm_world) = Inr demo_created
   \<and> map fst (entries (redis (snd (CreateProduct demo_externals demo_create_request demo_warm_world))))
       = [demo_list_key]
   \<and> fst (UpdateProduct demo_externals demo_id demo_update_request demo_warm_world) = Inr demo_new
   \<and> map fst (entries (redis (snd (UpdateProduct demo_externals demo_id demo_update_request
                                       demo_warm_world))))
       = [demo_list_key]
   \<and> fst (DeleteProduct demo_externals demo_id demo_warm_world) = None
   \<and> map fst (entries (redis (snd (DeleteProduct demo_externals demo_id demo_warm_world))))
       = [demo_list_key]"
proof (intro conjI)
  have c: "CreateProduct demo_externals demo_create_request demo_warm_world =
      (Inr demo_created,
       \<lparr>db = demo_db\<lparr>tbl_products := [row_of demo_old, demo_created],
                      db_log := [DbFirstBySKU ''X2'',
                                 DbFirstCategory (UUID ''33333333-3333-3333-3333-333333333333''),
                                 DbCreate (demo_created\<lparr>ID := uuid_Nil\<rparr>)]\<rparr>,
        redis = \<lparr>entries = [(demo_list_key, ''{products: [X1 at price 10.0], total: 1}'', 300)],
                 cache_faults = [],
                 cache_log = [OpKeys ''product:*'',
                              OpDel [''product:22222222-2222-2222-2222-222222222222'']]\<rparr>\<rparr>)"
    by (simp add: CreateProduct_def GetBySKU_def GetCategory_def Create_def
          InvalidateProductCache_def Let_def demo_defs op_defs)
  show "fst (CreateProduct demo_externals demo_create_request demo_warm_world) = Inr demo_created"
    by (simp add: c)
  show "map fst (entries (redis (snd (CreateProduct demo_externals demo_create_request demo_warm_world))))
       = [demo_list_key]"
    by (simp add: c)
  have u: "UpdateProduct demo_externals demo_id demo_update_request demo_warm_world =
      (Inr demo_new,
       \<lparr>db = demo_db\<lparr>tbl_products := [row_of demo_new],
                      db_log := [DbFirstByID demo_id, DbSave demo_new]\<rparr>,
        redis = \<lparr>entries = [(demo_list_key, ''{products: [X1 at price 10.0], total: 1}'', 300)],
                 cache_faults = [],
                 cache_log = [OpGet ''product:11111111-1111-1111-1111-111111111111'',
                              OpSet ''product:11111111-1111-1111-1111-111111111111''
                                    ''{product X1 at price 10.0}'' 600,
                              OpDel [''product:11111111-1111-1111-1111-111111111111''],
                              OpKeys ''product:*'',
                              OpDel [''product:22222222-2222-2222-2222-222222222222'']]\<rparr>\<rparr>)"
    by (simp add: UpdateProduct_def GetByID_def Update_def
          InvalidateProductCache_def Let_def demo_defs op_defs)
  show "fst (UpdateProduct demo_externals demo_id demo_update_request demo_warm_world) = Inr demo_new"
    by (simp add: u)
  show "map fst (entries (redis (snd (UpdateProduct demo_externals demo_id demo_update_request
                                       demo_warm_world))))
       = [demo_list_key]"
    by (simp add: u)
  have d: "DeleteProduct demo_externals demo_id demo_warm_world =
      (None,
       \<lparr>db = demo_db\<lparr>tbl_products := [],
                      db_log := [DbFirstByID demo_id, DbDelete demo_id]\<rparr>,
        redis = \<lparr>entries = [(demo_list_key, ''{products: [X1 at price 10.0], total: 1}'', 300)],
                 cache_faults = [],
                 cache_log = [OpGet ''product:11111111-1111-1111-1111-111111111111'',
                              OpSet ''product:11111111-1111-1111-1111-111111111111''
                                    ''{product X1 at price 10.0}'' 600,
                              OpDel [''product:11111111-1111-1111-1111-111111111111''],
                              OpKeys ''product:*'',
                              OpDel [''product:22222222-2222-2222-2222-222222222222'']]\<rparr>\<rparr>)"
    by (simp add: DeleteProduct_def GetByID_def Delete_def
          InvalidateProductCache_def Let_def demo_defs op_defs)
  show "fst (DeleteProduct demo_externals demo_id demo_warm_world) = None"
    by (simp add: d)
  show "map fst (entries (redis (snd (DeleteProduct demo_externals demo_id demo_warm_world))))
       = [demo_list_key]"
    by (simp add: d)
qed

text \<open>
  C9 on the same state. The first run of the sweep deletes the single-product entry
  and leaves the collection entry in the cache; the second run, with no write in
  between, deletes the collection entry.
\<close>

theorem C9_sweep_twice:
  "fst (InvalidateProductCache demo_warm_world) = None
   \<and> map fst (entries (redis (snd (InvalidateProductCache demo_warm_world)))) = [demo_list_key]
   \<and> fst (InvalidateProductCache (snd (InvalidateProductCache demo_warm_world))) = None
   \<and> entries (redis (snd (InvalidateProductCache (snd (InvalidateProductCache demo_warm_world))))) = []
   \<and> cache_log (redis (snd (InvalidateProductCache (snd (InvalidateProductCache demo_warm_world)))))
       = [OpKeys ''product:*'', OpDel [''product:22222222-2222-2222-2222-222222222222''],
          OpKeys ''product:*'', OpKeys ''products:*'', OpDel [demo_list_key]]"
proof -
  have s1: "InvalidateProductCache demo_warm_world =
     (None, \<lparr>db = demo_db,
             redis = \<lparr>entries = [(demo_list_key, ''{products: [X1 at price 10.0], total: 1}'', 300)],
                      cache_faults = [],
                      cache_log = [OpKeys ''product:*'',
                                   OpDel [''product:22222222-2222-2222-2222-222222222222'']]\<rparr>\<rparr>)"
    by (simp add: InvalidateProductCache_def demo_defs op_defs)
  have s2: "InvalidateProductCache (snd (InvalidateProductCache demo_warm_world)) =
     (None, \<lparr>db = demo_db,
             redis = \<lparr>entries = [],
                      cache_faults = [],
                      cache_log = [OpKeys ''product:*'',
                                   OpDel [''product:22222222-2222-2222-2222-222222222222''],
                                   OpKeys ''product:*'', OpKeys ''products:*'',
                                   OpDel [demo_list_key]]\<rparr>\<rparr>)"
    unfolding s1 by (simp add: InvalidateProductCache_def demo_defs op_defs)
  show ?thesis
    unfolding s2 unfolding s1 by simp
qed

end
